theory Spec2Isabelle
  imports Main
begin

section \<open>The relational store\<close>

text \<open>
  The route handlers of the repair-shop backend talk to a MySQL database through
  \<^verbatim>\<open>db.query(sql, params)\<close>. The store is modelled as a record of tables, each table
  a list of rows in insertion order. A column holds a string or SQL NULL
  (\<open>None\<close>); the JavaScript values \<^verbatim>\<open>undefined\<close> and \<^verbatim>\<open>null\<close> are both sent
  as NULL by the driver's parameter escaping, so a request field that is absent is the
  value \<open>None\<close> as well. Keys are natural numbers, and the \<^verbatim>\<open>:id\<close> of a route is the
  number it denotes.

  A statement that is well formed for the schema does not fail in the model: lost
  connections and constraints that a schema might add (NOT NULL, UNIQUE) are outside it.
  A statement that names a table or column the schema does not have, or that is not a
  statement at all, fails, and the handler's \<^verbatim>\<open>catch\<close> branch answers 500.

  Modelled from the spec: the schema, since the repository holds no DDL. Section 6 of the
  spec lists \<^verbatim>\<open>customers(customer_id, firstName, lastName, email, type)\<close>,
  \<^verbatim>\<open>customer_telephones(customer_id, phone_number)\<close>,
  \<^verbatim>\<open>employees(employee_id, first_name, last_name, email, nic, role, username, password,
  dob)\<close>, \<^verbatim>\<open>employee_phones(employee_id, phone_number)\<close> and
  \<^verbatim>\<open>products(product_id, product_name, model, model_no, product_image)\<close>; the INSERT
  statements of the handlers name the same columns.
\<close>

record customer_row =
  customer_id :: nat
  c_firstName :: "string option"
  c_lastName :: "string option"
  c_email :: "string option"
  c_type :: "string option"

record employee_row =
  employee_id :: nat
  e_first_name :: "string option"
  e_last_name :: "string option"
  e_email :: "string option"
  e_nic :: "string option"
  e_role :: "string option"
  e_username :: "string option"
  e_password :: "string option"
  e_dob :: "string option"

record product_row =
  product_id :: nat
  p_product_name :: "string option"
  p_model :: "string option"
  p_model_no :: "string option"
  p_product_image :: "string option"

text \<open>
  The customer DELETE handler names a table \<^verbatim>\<open>telephones\<close> that no other statement
  of the repository reads or writes. The store has it as an optional table: \<open>None\<close> when
  the schema has no such table (the statement then fails), \<open>Some rows\<close> when it has.
  The \<open>*_auto_increment\<close> counters are the AUTO_INCREMENT values that
  \<^verbatim>\<open>result.insertId\<close> reports, and \<open>group_concat_max_len\<close> is the server variable that
  bounds the length of a GROUP_CONCAT result.
\<close>

record db =
  customers :: "customer_row list"
  customers_auto_increment :: nat
  customer_telephones :: "(nat \<times> string) list"
  telephones :: "(nat \<times> string) list option"
  employees :: "employee_row list"
  employees_auto_increment :: nat
  employee_phones :: "(nat \<times> string) list"
  products :: "product_row list"
  group_concat_max_len :: nat

datatype failure =
    NoSuchTable string
  | UnknownColumn string
  | SyntaxError string
  | NotIterable string

subsection \<open>Strings of the JavaScript side\<close>

text \<open>\<^verbatim>\<open>Array.prototype.join\<close>, \<^verbatim>\<open>String.prototype.split\<close> with a one-character
  separator, and \<^verbatim>\<open>s.slice(0, -n)\<close>.\<close>

fun join :: "string \<Rightarrow> string list \<Rightarrow> string" where
  "join sep [] = []"
| "join sep [x] = x"
| "join sep (x # y # ys) = x @ sep @ join sep (y # ys)"

fun split :: "char \<Rightarrow> string \<Rightarrow> string list" where
  "split sep [] = [[]]"
| "split sep (c # cs) =
     (if c = sep then [] # split sep cs
      else (case split sep cs of
              [] \<Rightarrow> [[c]]
            | w # ws \<Rightarrow> (c # w) # ws))"

definition slice_end :: "string \<Rightarrow> nat \<Rightarrow> string" where
  "slice_end s n = take (length s - n) s"

text \<open>JavaScript truthiness of a value that is a string or \<^verbatim>\<open>undefined\<close>/\<^verbatim>\<open>null\<close>.\<close>

definition truthy :: "string option \<Rightarrow> bool" where
  "truthy v = (case v of None \<Rightarrow> False | Some s \<Rightarrow> s \<noteq> [])"

subsection \<open>SELECT, INSERT and DELETE statements\<close>

text \<open>SQL equality: a comparison with NULL is never true. Two strings are equal when
  they are the same string, as under a binary collation.\<close>

definition sql_eq :: "string option \<Rightarrow> string option \<Rightarrow> bool" where
  "sql_eq a b = (case a of None \<Rightarrow> False | Some x \<Rightarrow> (case b of None \<Rightarrow> False | Some y \<Rightarrow> x = y))"

text \<open>\<^verbatim>\<open>SELECT * FROM customers WHERE email = ?\<close>\<close>

definition select_customers_by_email :: "string option \<Rightarrow> db \<Rightarrow> customer_row list" where
  "select_customers_by_email e st = filter (\<lambda>r. sql_eq (c_email r) e) (customers st)"

text \<open>\<^verbatim>\<open>SELECT * FROM customers WHERE email = ? AND customer_id != ?\<close>\<close>

definition select_other_customers_by_email :: "string option \<Rightarrow> nat \<Rightarrow> db \<Rightarrow> customer_row list" where
  "select_other_customers_by_email e cid st =
     filter (\<lambda>r. sql_eq (c_email r) e \<and> customer_id r \<noteq> cid) (customers st)"

text \<open>\<^verbatim>\<open>SELECT * FROM employees WHERE email = ?\<close> and
  \<^verbatim>\<open>SELECT * FROM employees WHERE username = ?\<close>\<close>

definition select_employees_by_email :: "string option \<Rightarrow> db \<Rightarrow> employee_row list" where
  "select_employees_by_email e st = filter (\<lambda>r. sql_eq (e_email r) e) (employees st)"

definition select_employees_by_username :: "string option \<Rightarrow> db \<Rightarrow> employee_row list" where
  "select_employees_by_username u st = filter (\<lambda>r. sql_eq (e_username r) u) (employees st)"

text \<open>\<^verbatim>\<open>SELECT * FROM customer_telephones WHERE phone_number = ?\<close>, and the same on
  \<^verbatim>\<open>employee_phones\<close>.\<close>

definition select_by_phone :: "string \<Rightarrow> (nat \<times> string) list \<Rightarrow> (nat \<times> string) list" where
  "select_by_phone phone tbl = filter (\<lambda>t. snd t = phone) tbl"

text \<open>\<^verbatim>\<open>INSERT INTO customers (firstName, lastName, email, type) VALUES (?, ?, ?, ?)\<close>:
  the new row gets the AUTO_INCREMENT value, which is returned as \<^verbatim>\<open>insertId\<close>.\<close>

definition insert_customer ::
  "string option \<Rightarrow> string option \<Rightarrow> string option \<Rightarrow> string option \<Rightarrow> db \<Rightarrow> nat \<times> db" where
  "insert_customer fn ln em ty st =
     (let insertId = customers_auto_increment st in
      (insertId,
       st\<lparr>customers := customers st @
            [\<lparr>customer_id = insertId, c_firstName = fn, c_lastName = ln, c_email = em, c_type = ty\<rparr>],
          customers_auto_increment := insertId + 1\<rparr>))"

text \<open>\<^verbatim>\<open>INSERT INTO employees (first_name, last_name, email, nic, role, username, password,
  dob) VALUES (?, ?, ?, ?, ?, ?, ?, ?)\<close>\<close>

definition insert_employee ::
  "string option \<Rightarrow> string option \<Rightarrow> string option \<Rightarrow> string option \<Rightarrow> string option \<Rightarrow>
   string option \<Rightarrow> string option \<Rightarrow> string option \<Rightarrow> db \<Rightarrow> nat \<times> db" where
  "insert_employee fn ln em ni ro un pw bd st =
     (let insertId = employees_auto_increment st in
      (insertId,
       st\<lparr>employees := employees st @
            [\<lparr>employee_id = insertId, e_first_name = fn, e_last_name = ln, e_email = em,
              e_nic = ni, e_role = ro, e_username = un, e_password = pw, e_dob = bd\<rparr>],
          employees_auto_increment := insertId + 1\<rparr>))"

text \<open>\<^verbatim>\<open>INSERT INTO customer_telephones (customer_id, phone_number) VALUES ?\<close> with a list
  of pairs (a bulk insert), and the same on \<^verbatim>\<open>employee_phones\<close>.\<close>

definition insert_customer_telephones :: "(nat \<times> string) list \<Rightarrow> db \<Rightarrow> db" where
  "insert_customer_telephones phoneValues st =
     st\<lparr>customer_telephones := customer_telephones st @ phoneValues\<rparr>"

definition insert_employee_phones :: "(nat \<times> string) list \<Rightarrow> db \<Rightarrow> db" where
  "insert_employee_phones phoneValues st =
     st\<lparr>employee_phones := employee_phones st @ phoneValues\<rparr>"

text \<open>\<^verbatim>\<open>DELETE FROM customer_telephones WHERE customer_id = ?\<close> and
  \<^verbatim>\<open>DELETE FROM employee_phones WHERE employee_id = ?\<close>\<close>

definition delete_customer_telephones :: "nat \<Rightarrow> db \<Rightarrow> db" where
  "delete_customer_telephones cid st =
     st\<lparr>customer_telephones := filter (\<lambda>t. fst t \<noteq> cid) (customer_telephones st)\<rparr>"

definition delete_employee_phones :: "nat \<Rightarrow> db \<Rightarrow> db" where
  "delete_employee_phones eid st =
     st\<lparr>employee_phones := filter (\<lambda>t. fst t \<noteq> eid) (employee_phones st)\<rparr>"

text \<open>\<^verbatim>\<open>DELETE FROM customers WHERE customer_id = ?\<close> and
  \<^verbatim>\<open>DELETE FROM employees WHERE employee_id = ?\<close>\<close>

definition delete_customer_row :: "nat \<Rightarrow> db \<Rightarrow> db" where
  "delete_customer_row cid st =
     st\<lparr>customers := filter (\<lambda>r. customer_id r \<noteq> cid) (customers st)\<rparr>"

definition delete_employee_row :: "nat \<Rightarrow> db \<Rightarrow> db" where
  "delete_employee_row eid st =
     st\<lparr>employees := filter (\<lambda>r. employee_id r \<noteq> eid) (employees st)\<rparr>"

text \<open>\<^verbatim>\<open>DELETE FROM telephones WHERE customer_id = ?\<close>: an error of the store when the
  table does not exist.\<close>

definition delete_telephones :: "nat \<Rightarrow> db \<Rightarrow> failure + db" where
  "delete_telephones cid st =
     (case telephones st of
        None \<Rightarrow> Inl (NoSuchTable ''telephones'')
      | Some rows \<Rightarrow> Inr (st\<lparr>telephones := Some (filter (\<lambda>t. fst t \<noteq> cid) rows)\<rparr>))"

subsection \<open>UPDATE statements\<close>

text \<open>
  The handlers build some UPDATE statements at run time, so the statement is kept as the
  string the handler hands to the store and the store reads it: the words of
  \<^verbatim>\<open>UPDATE t SET c1 = ?, ..., cn = ? WHERE k = ?\<close>, separated by blanks. A string of
  another shape is a syntax error of the store, a column the table does not have is an
  unknown-column error, and both are raised before any row is touched. The parameters
  are the values for the placeholders of the SET clause, in order, followed by the key
  for the WHERE clause; the model passes the key, a row id, beside the list of values.
\<close>

definition sql_words :: "string \<Rightarrow> string list" where
  "sql_words sql = filter (\<lambda>w. w \<noteq> []) (split (CHR '' '') sql)"

fun parse_assignments :: "string list \<Rightarrow> (string list \<times> string list) option" where
  "parse_assignments (col # eq # ph # rest) =
     (if eq = ''='' \<and> ph = ''?,'' then
        (case parse_assignments rest of
           None \<Rightarrow> None
         | Some (cols, after) \<Rightarrow> Some (col # cols, after))
      else if eq = ''='' \<and> ph = ''?'' then Some ([col], rest)
      else None)"
| "parse_assignments ws = None"

definition parse_update :: "string \<Rightarrow> (string \<times> string list \<times> string) option" where
  "parse_update sql =
     (case sql_words sql of
        kw # tbl # set_kw # rest \<Rightarrow>
          (if kw = ''UPDATE'' \<and> set_kw = ''SET'' then
             (case parse_assignments rest of
                Some (cols, [wh, keycol, eq, ph]) \<Rightarrow>
                  (if wh = ''WHERE'' \<and> eq = ''='' \<and> ph = ''?'' then Some (tbl, cols, keycol)
                   else None)
              | _ \<Rightarrow> None)
           else None)
      | _ \<Rightarrow> None)"

text \<open>Modelled from the spec: the columns of each table that an UPDATE may assign (the
  schema above, without the keys), and the assignment of one.\<close>

definition customer_columns :: "string list" where
  "customer_columns = [''firstName'', ''lastName'', ''email'', ''type'']"

definition employee_columns :: "string list" where
  "employee_columns =
     [''first_name'', ''last_name'', ''email'', ''nic'', ''role'', ''username'', ''password'', ''dob'']"

definition product_columns :: "string list" where
  "product_columns = [''product_name'', ''model'', ''model_no'', ''product_image'']"

definition set_customer_column :: "customer_row \<Rightarrow> string \<times> string option \<Rightarrow> customer_row" where
  "set_customer_column r a =
     (if fst a = ''firstName'' then r\<lparr>c_firstName := snd a\<rparr>
      else if fst a = ''lastName'' then r\<lparr>c_lastName := snd a\<rparr>
      else if fst a = ''email'' then r\<lparr>c_email := snd a\<rparr>
      else if fst a = ''type'' then r\<lparr>c_type := snd a\<rparr>
      else r)"

definition set_employee_column :: "employee_row \<Rightarrow> string \<times> string option \<Rightarrow> employee_row" where
  "set_employee_column r a =
     (if fst a = ''first_name'' then r\<lparr>e_first_name := snd a\<rparr>
      else if fst a = ''last_name'' then r\<lparr>e_last_name := snd a\<rparr>
      else if fst a = ''email'' then r\<lparr>e_email := snd a\<rparr>
      else if fst a = ''nic'' then r\<lparr>e_nic := snd a\<rparr>
      else if fst a = ''role'' then r\<lparr>e_role := snd a\<rparr>
      else if fst a = ''username'' then r\<lparr>e_username := snd a\<rparr>
      else if fst a = ''password'' then r\<lparr>e_password := snd a\<rparr>
      else if fst a = ''dob'' then r\<lparr>e_dob := snd a\<rparr>
      else r)"

definition set_product_column :: "product_row \<Rightarrow> string \<times> string option \<Rightarrow> product_row" where
  "set_product_column r a =
     (if fst a = ''product_name'' then r\<lparr>p_product_name := snd a\<rparr>
      else if fst a = ''model'' then r\<lparr>p_model := snd a\<rparr>
      else if fst a = ''model_no'' then r\<lparr>p_model_no := snd a\<rparr>
      else if fst a = ''product_image'' then r\<lparr>p_product_image := snd a\<rparr>
      else r)"

text \<open>The statement is checked against the schema first: the table, every assigned
  column in order, the key column, the number of parameters.\<close>

definition check_update ::
  "string \<Rightarrow> string list \<Rightarrow> string \<Rightarrow> string list \<Rightarrow> string \<Rightarrow> string option list \<Rightarrow>
   failure option" where
  "check_update sql columns key cols keycol vals =
     (case find (\<lambda>c. c \<notin> set columns) cols of
        Some c \<Rightarrow> Some (UnknownColumn c)
      | None \<Rightarrow>
          (if keycol \<noteq> key then Some (UnknownColumn keycol)
           else if length cols \<noteq> length vals then Some (SyntaxError sql)
           else None))"

definition query_update :: "string \<Rightarrow> string option list \<Rightarrow> nat \<Rightarrow> db \<Rightarrow> failure + db" where
  "query_update sql vals key st =
     (case parse_update sql of
        None \<Rightarrow> Inl (SyntaxError sql)
      | Some (tbl, cols, keycol) \<Rightarrow>
          (if tbl = ''customers'' then
             (case check_update sql customer_columns ''customer_id'' cols keycol vals of
                Some err \<Rightarrow> Inl err
              | None \<Rightarrow>
                  Inr (st\<lparr>customers :=
                    map (\<lambda>r. if customer_id r = key
                              then foldl set_customer_column r (zip cols vals) else r)
                        (customers st)\<rparr>))
           else if tbl = ''employees'' then
             (case check_update sql employee_columns ''employee_id'' cols keycol vals of
                Some err \<Rightarrow> Inl err
              | None \<Rightarrow>
                  Inr (st\<lparr>employees :=
                    map (\<lambda>r. if employee_id r = key
                              then foldl set_employee_column r (zip cols vals) else r)
                        (employees st)\<rparr>))
           else if tbl = ''products'' then
             (case check_update sql product_columns ''product_id'' cols keycol vals of
                Some err \<Rightarrow> Inl err
              | None \<Rightarrow>
                  Inr (st\<lparr>products :=
                    map (\<lambda>r. if product_id r = key
                              then foldl set_product_column r (zip cols vals) else r)
                        (products st)\<rparr>))
           else Inl (NoSuchTable tbl)))"

subsection \<open>The join of a parent table with its phone table\<close>

text \<open>
  \<^verbatim>\<open>GROUP_CONCAT(t.phone_number)\<close> over the phone rows that the LEFT JOIN pairs with one
  parent row: NULL when the group has no phone row, otherwise the phone numbers joined
  by commas, cut at \<open>group_concat_max_len\<close>. The query groups by the parent's key,
  which is the primary key of the parent table, so every parent row is a group of its own
  and the query returns one row per parent row.
\<close>

definition GROUP_CONCAT :: "nat \<Rightarrow> string list \<Rightarrow> string option" where
  "GROUP_CONCAT max_len vals =
     (if vals = [] then None else Some (take max_len (join '','' vals)))"

definition phones_of :: "nat \<Rightarrow> (nat \<times> string) list \<Rightarrow> string list" where
  "phones_of key tbl = map snd (filter (\<lambda>t. fst t = key) tbl)"

text \<open>\<^verbatim>\<open>SELECT c.*, GROUP_CONCAT(t.phone_number) AS phoneNumbers FROM customers c LEFT JOIN
  customer_telephones t ON c.customer_id = t.customer_id GROUP BY c.customer_id\<close>, and the
  same with \<^verbatim>\<open>WHERE c.customer_id = ?\<close>; likewise for employees.\<close>

definition select_customers_joined :: "db \<Rightarrow> (customer_row \<times> string option) list" where
  "select_customers_joined st =
     map (\<lambda>c. (c, GROUP_CONCAT (group_concat_max_len st)
                     (phones_of (customer_id c) (customer_telephones st))))
         (customers st)"

definition select_customer_joined :: "nat \<Rightarrow> db \<Rightarrow> (customer_row \<times> string option) list" where
  "select_customer_joined cid st =
     filter (\<lambda>row. customer_id (fst row) = cid) (select_customers_joined st)"

definition select_employees_joined :: "db \<Rightarrow> (employee_row \<times> string option) list" where
  "select_employees_joined st =
     map (\<lambda>e. (e, GROUP_CONCAT (group_concat_max_len st)
                     (phones_of (employee_id e) (employee_phones st))))
         (employees st)"

definition select_employee_joined :: "nat \<Rightarrow> db \<Rightarrow> (employee_row \<times> string option) list" where
  "select_employee_joined eid st =
     filter (\<lambda>row. employee_id (fst row) = eid) (select_employees_joined st)"

section \<open>Requests and responses\<close>

text \<open>
  \<^verbatim>\<open>req.body\<close> as the handlers destructure it: every field is a string or absent, the
  two phone fields are arrays of strings or absent. The PATCH handler iterates over the
  keys of the body instead, so there the body is the list of its key-value pairs in
  order.
\<close>

record body =
  firstName :: "string option"
  lastName :: "string option"
  email :: "string option"
  customerType :: "string option"
  phoneNumbers :: "string list option"
  mobileno :: "string list option"
  nic :: "string option"
  role :: "string option"
  username :: "string option"
  password :: "string option"
  dob :: "string option"
  productName :: "string option"
  model :: "string option"
  modelNo :: "string option"

datatype jsvalue = JsNull | JsString string | JsArray "string list"

text \<open>A row of a joined query as the handler returns it: the columns of the parent
  and the \<^verbatim>\<open>phoneNumbers\<close> property.\<close>

record 'r entity =
  columns :: 'r
  ent_phoneNumbers :: jsvalue

datatype payload =
    Message string
  | Errors "(string \<times> string) list"
  | Error failure
  | Customer "customer_row entity"
  | Customers "customer_row entity list"
  | Employee "employee_row entity"
  | Employees "employee_row entity list"

text \<open>\<^verbatim>\<open>res.status(code).json(payload)\<close>\<close>

record response =
  status :: nat
  json :: payload

definition reply :: "nat \<Rightarrow> payload \<Rightarrow> response" where
  "reply code p = \<lparr>status = code, json = p\<rparr>"

section \<open>Validation chains\<close>

text \<open>
  The checks of the express-validator chains that the source spells out are defined
  here; \<^verbatim>\<open>isEmail\<close>, \<^verbatim>\<open>isDate\<close> and the two questions the date-of-birth check asks of
  the moment library (is the date after now, the age in years) belong to libraries
  and are parameters. A chain runs all its checks, and every failed one adds its
  message under the field's name. A field that is absent is checked as the empty string.
\<close>

record lib =
  isEmail :: "string \<Rightarrow> bool"
  isDate :: "string \<Rightarrow> bool"
  isAfterNow :: "string \<Rightarrow> bool"
  ageYears :: "string \<Rightarrow> int"

definition str :: "string option \<Rightarrow> string" where
  "str v = (case v of None \<Rightarrow> [] | Some s \<Rightarrow> s)"

definition check :: "bool \<Rightarrow> string \<Rightarrow> string \<Rightarrow> (string \<times> string) list" where
  "check ok field msg = (if ok then [] else [(field, msg)])"

definition quoted :: "string \<Rightarrow> string" where
  "quoted s = CHR 0x27 # s @ [CHR 0x27]"

definition is_alpha :: "char \<Rightarrow> bool" where
  "is_alpha c = (let n = (of_char c :: nat) in (65 \<le> n \<and> n \<le> 90) \<or> (97 \<le> n \<and> n \<le> 122))"

definition is_digit :: "char \<Rightarrow> bool" where
  "is_digit c = (let n = (of_char c :: nat) in 48 \<le> n \<and> n \<le> 57)"

text \<open>\<^verbatim>\<open>/^[a-zA-Z']+$/\<close>\<close>

definition name_pattern :: "string \<Rightarrow> bool" where
  "name_pattern s = (s \<noteq> [] \<and> list_all (\<lambda>c. is_alpha c \<or> c = CHR 0x27) s)"

text \<open>\<^verbatim>\<open>/^07\d{8}$/\<close>\<close>

definition phone_pattern :: "string \<Rightarrow> bool" where
  "phone_pattern s = (length s = 10 \<and> take 2 s = ''07'' \<and> list_all is_digit (drop 2 s))"

text \<open>\<^verbatim>\<open>/^(?:\d{9}[Vv]|\d{12})$/\<close>\<close>

definition nic_pattern :: "string \<Rightarrow> bool" where
  "nic_pattern s =
     ((length s = 10 \<and> list_all is_digit (take 9 s) \<and> (drop 9 s = ''V'' \<or> drop 9 s = ''v''))
      \<or> (length s = 12 \<and> list_all is_digit s))"

text \<open>The chain on a phone array: \<^verbatim>\<open>isArray()\<close>, then the custom check that throws at
  the first element that does not match. On an absent field \<^verbatim>\<open>isArray\<close> fails and
  the loop of the custom check throws a TypeError, whose message is the error's.\<close>

definition validate_phones :: "string \<Rightarrow> string \<Rightarrow> string list option \<Rightarrow> (string \<times> string) list" where
  "validate_phones field msg v =
     (case v of
        None \<Rightarrow> [(field, ''Phone numbers should be an array''), (field, field @ '' is not iterable'')]
      | Some phones \<Rightarrow> check (list_all phone_pattern phones) field msg)"

definition validate_register_customer :: "lib \<Rightarrow> body \<Rightarrow> (string \<times> string) list" where
  "validate_register_customer L b =
     check (str (firstName b) \<noteq> []) ''firstName'' ''First name is mandatory'' @
     check (name_pattern (str (firstName b))) ''firstName''
       ''First name should only contain letters and ' symbol'' @
     check (length (str (firstName b)) \<le> 10) ''firstName''
       ''First name should not exceed 10 characters'' @
     check (str (lastName b) \<noteq> []) ''lastName'' ''Last name is mandatory'' @
     check (name_pattern (str (lastName b))) ''lastName''
       ''Last name should only contain letters and ' symbol'' @
     check (length (str (lastName b)) \<le> 20) ''lastName''
       ''Last name should not exceed 20 characters'' @
     check (str (email b) \<noteq> []) ''email'' ''Email is mandatory'' @
     check (isEmail L (str (email b))) ''email'' ''Invalid email format'' @
     check (length (str (email b)) \<le> 100) ''email'' ''Email should not exceed 100 characters'' @
     check (str (customerType b) \<noteq> []) ''customerType'' ''Customer type is mandatory'' @
     check (str (customerType b) \<in> set [''Regular'', ''Normal'']) ''customerType''
       (''Customer type should be either '' @ quoted ''Regular'' @ '' or '' @ quoted ''Normal'') @
     validate_phones ''phoneNumbers''
       ''Telephone number should contain 10 digits and start with 07'' (phoneNumbers b)"

text \<open>The custom check on \<^verbatim>\<open>dob\<close> throws for a future date first, then for an age
  under 18.\<close>

definition validate_dob :: "lib \<Rightarrow> string \<Rightarrow> (string \<times> string) list" where
  "validate_dob L v =
     (if isAfterNow L v then [(''dob'', ''Date of birth cannot be a future date'')]
      else if ageYears L v < 18 then [(''dob'', ''Employee must be at least 18 years old'')]
      else [])"

definition validate_register_employee :: "lib \<Rightarrow> body \<Rightarrow> (string \<times> string) list" where
  "validate_register_employee L b =
     check (str (firstName b) \<noteq> []) ''firstName'' ''First name is mandatory'' @
     check (name_pattern (str (firstName b))) ''firstName''
       ''First name should only contain letters and ' symbol'' @
     check (length (str (firstName b)) \<le> 50) ''firstName''
       ''First name should not exceed 50 characters'' @
     check (str (lastName b) \<noteq> []) ''lastName'' ''Last name is mandatory'' @
     check (name_pattern (str (lastName b))) ''lastName''
       ''Last name should only contain letters and ' symbol'' @
     check (length (str (lastName b)) \<le> 50) ''lastName''
       ''Last name should not exceed 50 characters'' @
     check (str (email b) \<noteq> []) ''email'' ''Email is mandatory'' @
     check (isEmail L (str (email b))) ''email'' ''Invalid email format'' @
     check (length (str (email b)) \<le> 100) ''email'' ''Email should not exceed 100 characters'' @
     validate_phones ''mobileno''
       ''Telephone number should contain 10 digits and start with 07'' (mobileno b) @
     check (str (nic b) \<noteq> []) ''nic'' ''NIC is mandatory'' @
     check (nic_pattern (str (nic b))) ''nic''
       ''Invalid NIC format. Should be 9 digits followed by V or 12 digits.'' @
     check (str (role b) \<noteq> []) ''role'' ''Role is mandatory'' @
     check (str (role b) \<in> set [''owner'', ''employee'']) ''role''
       (''Role should be either '' @ quoted ''owner'' @ '' or '' @ quoted ''employee'') @
     check (str (username b) \<noteq> []) ''username'' ''Username is mandatory'' @
     check (5 \<le> length (str (username b)) \<and> length (str (username b)) \<le> 50) ''username''
       ''Username should be between 5 to 50 characters'' @
     check (str (password b) \<noteq> []) ''password'' ''Password is mandatory'' @
     check (6 \<le> length (str (password b))) ''password''
       ''Password should be at least 6 characters long'' @
     check (str (dob b) \<noteq> []) ''dob'' ''Date of birth is mandatory'' @
     check (isDate L (str (dob b))) ''dob'' ''Invalid date format'' @
     validate_dob L (str (dob b))"

section \<open>Customer routes\<close>

text \<open>The loop over the submitted phone numbers: one SELECT per number, in input
  order, leaving the handler at the first number that the phone table already holds.\<close>

fun first_existing_phone :: "(nat \<times> string) list \<Rightarrow> string list \<Rightarrow> string option" where
  "first_existing_phone tbl [] = None"
| "first_existing_phone tbl (phone # rest) =
     (if length (select_by_phone phone tbl) > 0 then Some phone
      else first_existing_phone tbl rest)"

text \<open>\<^verbatim>\<open>POST /api/customers/register\<close>. Every handler takes the store and returns the
  response with the store it leaves behind. An exception inside \<^verbatim>\<open>try\<close> becomes the
  500 response of the \<^verbatim>\<open>catch\<close> branch, with the store as it was when it was thrown.\<close>

definition post_customers_register :: "lib \<Rightarrow> body \<Rightarrow> db \<Rightarrow> response \<times> db" where
  "post_customers_register L b st =
     (let errors = validate_register_customer L b in
      if errors \<noteq> [] then (reply 400 (Errors errors), st)
      else if length (select_customers_by_email (email b) st) > 0
        then (reply 400 (Message ''Email already exists''), st)
      else (case phoneNumbers b of
          None \<Rightarrow> (reply 500 (Error (NotIterable ''phoneNumbers'')), st)
        | Some phones \<Rightarrow>
            (case first_existing_phone (customer_telephones st) phones of
               Some phone \<Rightarrow>
                 (reply 400 (Message (''Phone number '' @ phone @ '' already exists'')), st)
             | None \<Rightarrow>
                 (let (customerId, st1) =
                        insert_customer (firstName b) (lastName b) (email b) (customerType b) st;
                      st2 = (if length phones > 0
                             then insert_customer_telephones
                                    (map (\<lambda>phone. (customerId, phone)) phones) st1
                             else st1)
                  in (reply 201 (Message ''Customer registered successfully!''), st2)))))"

text \<open>\<^verbatim>\<open>PUT /api/customers/:id\<close>. The handler never reads the result of its validation
  chain, so the chain has no effect on what it does.\<close>

definition put_customers :: "nat \<Rightarrow> body \<Rightarrow> db \<Rightarrow> response \<times> db" where
  "put_customers cid b st =
     (if length (select_other_customers_by_email (email b) cid st) > 0
        then (reply 400 (Message ''Email already exists''), st)
      else
        (case query_update
                ''UPDATE customers SET firstName = ?, lastName = ?, email = ?,  type = ? WHERE customer_id = ?''
                [firstName b, lastName b, email b, customerType b] cid st of
           Inl err \<Rightarrow> (reply 500 (Error err), st)
         | Inr st1 \<Rightarrow>
             (let st2 = delete_customer_telephones cid st1;
                  st3 = (case phoneNumbers b of
                           None \<Rightarrow> st2
                         | Some phones \<Rightarrow>
                             (if length phones > 0
                              then insert_customer_telephones
                                     (map (\<lambda>phone. (cid, phone)) phones) st2
                              else st2))
              in (reply 200 (Message ''Customer updated successfully!''), st3))))"

text \<open>\<^verbatim>\<open>PATCH /api/customers/:id\<close>: the loop over the keys of the body collects
  \<^verbatim>\<open>key = ?\<close> for every key of the allow-list, and its value.\<close>

fun patch_fields ::
  "(string \<times> string option) list \<Rightarrow> string list \<Rightarrow> string option list \<Rightarrow>
   string list \<times> string option list" where
  "patch_fields [] updateFields values = (updateFields, values)"
| "patch_fields ((key, v) # rest) updateFields values =
     (if key \<in> set [''firstName'', ''lastName'', ''email'', ''customerType'']
      then patch_fields rest (updateFields @ [key @ '' = ?'']) (values @ [v])
      else patch_fields rest updateFields values)"

definition patch_customers :: "nat \<Rightarrow> (string \<times> string option) list \<Rightarrow> db \<Rightarrow> response \<times> db" where
  "patch_customers cid updates st =
     (let (updateFields, values) = patch_fields updates [] [] in
      if length updateFields = 0
        then (reply 400 (Message ''No valid fields provided for update''), st)
      else
        (case query_update
                (''UPDATE customers SET '' @ join '', '' updateFields @ '' WHERE customer_id = ?'')
                values cid st of
           Inl err \<Rightarrow> (reply 500 (Error err), st)
         | Inr st1 \<Rightarrow> (reply 200 (Message ''Customer updated successfully!''), st1)))"

text \<open>\<^verbatim>\<open>DELETE /api/customers/:id\<close>: the second statement names the table
  \<^verbatim>\<open>telephones\<close>.\<close>

definition delete_customers :: "nat \<Rightarrow> db \<Rightarrow> response \<times> db" where
  "delete_customers cid st =
     (let st1 = delete_customer_row cid st in
      case delete_telephones cid st1 of
        Inl err \<Rightarrow> (reply 500 (Error err), st1)
      | Inr st2 \<Rightarrow> (reply 200 (Message ''Customer deleted successfully!''), st2))"

text \<open>\<^verbatim>\<open>row.phoneNumbers ? row.phoneNumbers.split(',') : []\<close>, on the value the query
  returned for the column.\<close>

definition format_phoneNumbers :: "string option \<Rightarrow> jsvalue" where
  "format_phoneNumbers v =
     (case v of
        None \<Rightarrow> JsArray []
      | Some s \<Rightarrow> (if truthy (Some s) then JsArray (split (CHR '','') s) else JsArray []))"

definition format_row :: "'r \<times> string option \<Rightarrow> 'r entity" where
  "format_row row = \<lparr>columns = fst row, ent_phoneNumbers = format_phoneNumbers (snd row)\<rparr>"

text \<open>\<^verbatim>\<open>GET /api/customers/all\<close> and \<^verbatim>\<open>GET /api/customers/:id\<close>\<close>

definition get_customers_all :: "db \<Rightarrow> response \<times> db" where
  "get_customers_all st =
     (let customersData = select_customers_joined st in
      (reply 200 (Customers (map format_row customersData)), st))"

definition get_customers_id :: "nat \<Rightarrow> db \<Rightarrow> response \<times> db" where
  "get_customers_id cid st =
     (case select_customer_joined cid st of
        [] \<Rightarrow> (reply 404 (Message ''Customer not found''), st)
      | customer # others \<Rightarrow> (reply 200 (Customer (format_row customer)), st))"

section \<open>Employee routes\<close>

text \<open>\<^verbatim>\<open>POST /api/employees/register\<close>\<close>

definition post_employees_register :: "lib \<Rightarrow> body \<Rightarrow> db \<Rightarrow> response \<times> db" where
  "post_employees_register L b st =
     (let errors = validate_register_employee L b in
      if errors \<noteq> [] then (reply 400 (Errors errors), st)
      else if length (select_employees_by_email (email b) st) > 0
        then (reply 400 (Message ''Email already exists''), st)
      else if length (select_employees_by_username (username b) st) > 0
        then (reply 400 (Message ''Username already exists''), st)
      else (case mobileno b of
          None \<Rightarrow> (reply 500 (Error (NotIterable ''mobileno'')), st)
        | Some phones \<Rightarrow>
            (case first_existing_phone (employee_phones st) phones of
               Some phone \<Rightarrow>
                 (reply 400 (Message (''Phone number '' @ phone @ '' already exists'')), st)
             | None \<Rightarrow>
                 (let (employeeId, st1) =
                        insert_employee (firstName b) (lastName b) (email b) (nic b) (role b)
                          (username b) (password b) (dob b) st;
                      st2 = (if length phones > 0
                             then insert_employee_phones
                                    (map (\<lambda>phone. (employeeId, phone)) phones) st1
                             else st1)
                  in (reply 201 (Message ''Employee registered successfully!''), st2)))))"

text \<open>\<^verbatim>\<open>GET /api/employees/all\<close> and \<^verbatim>\<open>GET /api/employees/:id\<close>\<close>

definition get_employees_all :: "db \<Rightarrow> response \<times> db" where
  "get_employees_all st =
     (let employeesData = select_employees_joined st in
      (reply 200 (Employees (map format_row employeesData)), st))"

definition get_employees_id :: "nat \<Rightarrow> db \<Rightarrow> response \<times> db" where
  "get_employees_id eid st =
     (case select_employee_joined eid st of
        [] \<Rightarrow> (reply 404 (Message ''Employee not found''), st)
      | employee # others \<Rightarrow> (reply 200 (Employee (format_row employee)), st))"

text \<open>\<^verbatim>\<open>PUT /api/employees/:id\<close>: no SELECT precedes the UPDATE, and the validation
  result is not read here either.\<close>

definition put_employees :: "nat \<Rightarrow> body \<Rightarrow> db \<Rightarrow> response \<times> db" where
  "put_employees eid b st =
     (case query_update
             ''UPDATE employees SET first_name = ?, last_name = ?, email = ?, role = ?, dob = ? WHERE employee_id = ?''
             [firstName b, lastName b, email b, role b, dob b] eid st of
        Inl err \<Rightarrow> (reply 500 (Error err), st)
      | Inr st1 \<Rightarrow>
          (let st2 = delete_employee_phones eid st1;
               st3 = (case mobileno b of
                        None \<Rightarrow> st2
                      | Some phones \<Rightarrow>
                          (if length phones > 0
                           then insert_employee_phones
                                  (map (\<lambda>phone. (eid, phone)) phones) st2
                           else st2))
           in (reply 200 (Message ''Employee updated successfully!''), st3)))"

text \<open>\<^verbatim>\<open>DELETE /api/employees/:id\<close>\<close>

definition delete_employees :: "nat \<Rightarrow> db \<Rightarrow> response \<times> db" where
  "delete_employees eid st =
     (let st1 = delete_employee_row eid st;
          st2 = delete_employee_phones eid st1
      in (reply 200 (Message ''Employee deleted successfully!''), st2))"

section \<open>Product routes\<close>

text \<open>\<^verbatim>\<open>PUT /api/products/:id\<close>. \<open>file\<close> is the name multer gave the uploaded file,
  if the request had one. The statement grows by one assignment per truthy field and
  loses its last two characters before the WHERE clause is appended.\<close>

definition put_products_query ::
  "body \<Rightarrow> string option \<Rightarrow> string \<times> string option list" where
  "put_products_query b file =
     (let productImage = (case file of None \<Rightarrow> None | Some filename \<Rightarrow> Some (''/uploads/'' @ filename));
          q0 = ''UPDATE products SET '';
          p0 = [];
          (q1, p1) = (if truthy (productName b)
                      then (q0 @ ''product_name = ?, '', p0 @ [productName b]) else (q0, p0));
          (q2, p2) = (if truthy (model b)
                      then (q1 @ ''model = ?, '', p1 @ [model b]) else (q1, p1));
          (q3, p3) = (if truthy (modelNo b)
                      then (q2 @ ''model_no = ?, '', p2 @ [modelNo b]) else (q2, p2));
          (q4, p4) = (if truthy productImage
                      then (q3 @ ''product_image = ?, '', p3 @ [productImage]) else (q3, p3))
      in (slice_end q4 2 @ '' WHERE product_id = ?'', p4))"

definition put_products :: "nat \<Rightarrow> body \<Rightarrow> string option \<Rightarrow> db \<Rightarrow> response \<times> db" where
  "put_products pid b file st =
     (let (query, params) = put_products_query b file in
      case query_update query params pid st of
        Inl err \<Rightarrow> (reply 500 (Error err), st)
      | Inr st1 \<Rightarrow> (reply 200 (Message ''Product updated successfully!''), st1))"

section \<open>A store and requests for the examples\<close>

text \<open>Two customers and two employees with their phone rows, one product, an empty
  \<^verbatim>\<open>telephones\<close> table, and the request body with no field at all.\<close>

definition shop :: db where
  "shop = \<lparr>customers =
       [\<lparr>customer_id = 1, c_firstName = Some ''Amal'', c_lastName = Some ''Perera'',
          c_email = Some ''amal@x.com'', c_type = Some ''Regular''\<rparr>,
        \<lparr>customer_id = 2, c_firstName = Some ''Nimal'', c_lastName = Some ''Silva'',
          c_email = Some ''nimal@x.com'', c_type = Some ''Normal''\<rparr>],
     customers_auto_increment = 3,
     customer_telephones = [(1, ''0711111111''), (1, ''0722222222''), (2, ''0733333333'')],
     telephones = Some [],
     employees =
       [\<lparr>employee_id = 1, e_first_name = Some ''Kamal'', e_last_name = Some ''Fernando'',
          e_email = Some ''kamal@x.com'', e_nic = Some ''123456789V'', e_role = Some ''owner'',
          e_username = Some ''kamal1'', e_password = Some ''secret1'', e_dob = Some ''1990-01-01''\<rparr>,
        \<lparr>employee_id = 2, e_first_name = Some ''Sunil'', e_last_name = Some ''Dias'',
          e_email = Some ''sunil@x.com'', e_nic = Some ''200012345678'', e_role = Some ''employee'',
          e_username = Some ''sunil2'', e_password = Some ''secret2'', e_dob = Some ''2000-02-02''\<rparr>],
     employees_auto_increment = 3,
     employee_phones = [(1, ''0744444444''), (2, ''0755555555'')],
     products =
       [\<lparr>product_id = 1, p_product_name = Some ''Kettle'', p_model = Some ''K100'',
          p_model_no = Some ''K100A'', p_product_image = None\<rparr>],
     group_concat_max_len = 1024\<rparr>"

definition no_fields :: body where
  "no_fields = \<lparr>firstName = None, lastName = None, email = None, customerType = None,
     phoneNumbers = None, mobileno = None, nic = None, role = None, username = None,
     password = None, dob = None, productName = None, model = None, modelNo = None\<rparr>"

text \<open>Stand-ins for the library predicates, and well-formed registration bodies.\<close>

definition example_lib :: lib where
  "example_lib = \<lparr>isEmail = (\<lambda>s. CHR ''@'' \<in> set s), isDate = (\<lambda>s. length s = 10),
     isAfterNow = (\<lambda>s. False), ageYears = (\<lambda>s. 30)\<rparr>"

definition new_customer :: body where
  "new_customer = no_fields\<lparr>firstName := Some ''Saman'', lastName := Some ''Kumara'',
     email := Some ''saman@x.com'', customerType := Some ''Regular'',
     phoneNumbers := Some [''0766666666'', ''0777777777'']\<rparr>"

definition new_employee :: body where
  "new_employee = no_fields\<lparr>firstName := Some ''Ruwan'', lastName := Some ''Jayasinghe'',
     email := Some ''ruwan@x.com'', mobileno := Some [''0788888888''],
     nic := Some ''987654321V'', role := Some ''employee'', username := Some ''ruwan3'',
     password := Some ''secret3'', dob := Some ''1995-05-05''\<rparr>"

definition colliding_customer :: body where
  "colliding_customer =
     new_customer\<lparr>phoneNumbers := Some [''0766666666'', ''0722222222'', ''0711111111'']\<rparr>"

definition colliding_employee :: body where
  "colliding_employee = new_employee\<lparr>mobileno := Some [''0755555555'']\<rparr>"

definition returning_customer :: body where
  "returning_customer =
     new_customer\<lparr>email := Some ''amal@x.com'', phoneNumbers := Some [''0711111111'']\<rparr>"

text \<open>Bodies of full updates: one phone number with the customer's own email, a first
  name and nothing else, the email that customer 2 holds, and the email that employee 2
  holds.\<close>

definition one_phone_update :: body where
  "one_phone_update =
     no_fields\<lparr>email := Some ''amal@x.com'', phoneNumbers := Some [''0766666666'']\<rparr>"

definition first_name_update :: body where
  "first_name_update = no_fields\<lparr>firstName := Some ''Saman''\<rparr>"

definition taken_email_update :: body where
  "taken_email_update = no_fields\<lparr>email := Some ''nimal@x.com''\<rparr>"

definition sunil_email_update :: body where
  "sunil_email_update = no_fields\<lparr>email := Some ''sunil@x.com''\<rparr>"

text \<open>The store after a full update of customer 1 that submits one empty string as
  its phone list.\<close>

definition blank_phone_store :: db where
  "blank_phone_store =
     snd (put_customers 1 (no_fields\<lparr>email := Some ''amal@x.com'', phoneNumbers := Some [[]]\<rparr>) shop)"

section \<open>Notions for the proofs\<close>

text \<open>The words of the SET clause that assigns the columns \<open>ks\<close> in order, and the
  entries of a PATCH body whose key is on the allow-list.\<close>

fun assignment_words :: "string list \<Rightarrow> string list" where
  "assignment_words [] = []"
| "assignment_words [k] = [k, ''='', ''?'']"
| "assignment_words (k # k' # ks) = [k, ''='', ''?,''] @ assignment_words (k' # ks)"

definition accepted :: "(string \<times> string option) list \<Rightarrow> (string \<times> string option) list" where
  "accepted updates =
     filter (\<lambda>u. fst u \<in> set [''firstName'', ''lastName'', ''email'', ''customerType'']) updates"

section \<open>The fixed UPDATE statements\<close>

lemma parse_update_customers:
  "parse_update ''UPDATE customers SET firstName = ?, lastName = ?, email = ?,  type = ? WHERE customer_id = ?''
     = Some (''customers'', [''firstName'', ''lastName'', ''email'', ''type''], ''customer_id'')"
  by code_simp

lemma parse_update_employees:
  "parse_update ''UPDATE employees SET first_name = ?, last_name = ?, email = ?, role = ?, dob = ? WHERE employee_id = ?''
     = Some (''employees'', [''first_name'', ''last_name'', ''email'', ''role'', ''dob''], ''employee_id'')"
  by code_simp

lemma query_update_customers:
  "query_update ''UPDATE customers SET firstName = ?, lastName = ?, email = ?,  type = ? WHERE customer_id = ?''
      [fn, ln, em, ty] cid st =
   Inr (st\<lparr>customers :=
     map (\<lambda>r. if customer_id r = cid
               then r\<lparr>c_firstName := fn, c_lastName := ln, c_email := em, c_type := ty\<rparr> else r)
         (customers st)\<rparr>)"
  unfolding query_update_def parse_update_customers
  by (simp add: check_update_def customer_columns_def set_customer_column_def)

lemma query_update_employees:
  "query_update ''UPDATE employees SET first_name = ?, last_name = ?, email = ?, role = ?, dob = ? WHERE employee_id = ?''
      [fn, ln, em, ro, bd] eid st =
   Inr (st\<lparr>employees :=
     map (\<lambda>r. if employee_id r = eid
               then r\<lparr>e_first_name := fn, e_last_name := ln, e_email := em, e_role := ro, e_dob := bd\<rparr> else r)
         (employees st)\<rparr>)"
  unfolding query_update_def parse_update_employees
  by (simp add: check_update_def employee_columns_def set_employee_column_def)

section \<open>Statements built at run time\<close>

text \<open>A statement put together from a table name, a non-empty list of column names and a
  key column, none of them empty or with a blank inside, is read back as these.\<close>

lemma split_no_sep: "sep \<notin> set a \<Longrightarrow> split sep a = [a]"
  by (induction a) auto

lemma split_append_sep: "sep \<notin> set a \<Longrightarrow> split sep (a @ sep # r) = a # split sep r"
  by (induction a) auto

lemma split_join:
  "ws \<noteq> [] \<Longrightarrow> list_all (\<lambda>w. sep \<notin> set w) ws \<Longrightarrow> split sep (join [sep] ws) = ws"
  by (induction "[sep]" ws rule: join.induct) (auto simp: split_no_sep split_append_sep)

lemma sql_words_join:
  assumes "ws \<noteq> []" and "list_all (\<lambda>w. w \<noteq> [] \<and> CHR '' '' \<notin> set w) ws"
  shows "sql_words (join '' '' ws) = ws"
proof -
  have "list_all (\<lambda>w. CHR '' '' \<notin> set w) ws" and "list_all (\<lambda>w. w \<noteq> []) ws"
    using assms(2) by (simp_all add: list_all_iff)
  then show ?thesis
    using assms(1) by (simp add: sql_words_def split_join list_all_iff filter_id_conv)
qed

lemma join_append:
  "xs \<noteq> [] \<Longrightarrow> ys \<noteq> [] \<Longrightarrow> join sep (xs @ ys) = join sep xs @ sep @ join sep ys"
  by (induction sep xs rule: join.induct) (auto simp: neq_Nil_conv)

lemma join_Cons: "ys \<noteq> [] \<Longrightarrow> join sep (x # ys) = x @ sep @ join sep ys"
  by (cases ys) simp_all

lemma assignment_words_Nil: "assignment_words ks = [] \<longleftrightarrow> ks = []"
  by (induction ks rule: assignment_words.induct) simp_all

lemma join_assignments:
  "ks \<noteq> [] \<Longrightarrow>
   join '', '' (map (\<lambda>k. k @ '' = ?'') ks) = join '' '' (assignment_words ks)"
  by (induction ks rule: assignment_words.induct)
    (simp_all add: join_Cons assignment_words_Nil)

lemma parse_assignment_words:
  "ks \<noteq> [] \<Longrightarrow> parse_assignments (assignment_words ks @ rest) = Some (ks, rest)"
  by (induction ks rule: assignment_words.induct) simp_all

lemma assignment_words_plain:
  "list_all (\<lambda>k. k \<noteq> [] \<and> CHR '' '' \<notin> set k) ks \<Longrightarrow>
   list_all (\<lambda>w. w \<noteq> [] \<and> CHR '' '' \<notin> set w) (assignment_words ks)"
  by (induction ks rule: assignment_words.induct) simp_all

lemma parse_update_built:
  assumes "ks \<noteq> []" and "list_all (\<lambda>k. k \<noteq> [] \<and> CHR '' '' \<notin> set k) ks"
    and "tbl \<noteq> []" and "CHR '' '' \<notin> set tbl" and "key \<noteq> []" and "CHR '' '' \<notin> set key"
  shows "parse_update (''UPDATE '' @ tbl @ '' SET '' @ join '', '' (map (\<lambda>k. k @ '' = ?'') ks)
            @ '' WHERE '' @ key @ '' = ?'')
         = Some (tbl, ks, key)"
proof -
  let ?ws = "[''UPDATE'', tbl, ''SET''] @ assignment_words ks @ [''WHERE'', key, ''='', ''?'']"
  have a: "assignment_words ks \<noteq> []"
    using assms(1) by (simp add: assignment_words_Nil)
  have "join '' '' ?ws =
      join '' '' [''UPDATE'', tbl, ''SET''] @ '' '' @
      (join '' '' (assignment_words ks) @ '' '' @ join '' '' [''WHERE'', key, ''='', ''?''])"
    using a by (simp only: join_append [OF _ a] join_append append_is_Nil_conv list.distinct
          not_False_eq_True simp_thms)
  then have s: "''UPDATE '' @ tbl @ '' SET '' @ join '', '' (map (\<lambda>k. k @ '' = ?'') ks)
            @ '' WHERE '' @ key @ '' = ?'' = join '' '' ?ws"
    using assms(1) by (simp add: join_assignments)
  have p: "list_all (\<lambda>w. w \<noteq> [] \<and> CHR '' '' \<notin> set w) ?ws"
    using assignment_words_plain [OF assms(2)] assms(3-6) by simp
  have w: "sql_words (join '' '' ?ws) = ?ws"
    by (rule sql_words_join [OF _ p]) simp
  show ?thesis
    unfolding s parse_update_def w
    using assms(1) by (simp add: parse_assignment_words)
qed

section \<open>Full update\<close>

text \<open>What the two PUT handlers return and leave in the store, statement by statement
  folded into one update of the store.\<close>

lemma put_employees_eq:
  "put_employees eid b st =
     (reply 200 (Message ''Employee updated successfully!''),
      st\<lparr>employees :=
           map (\<lambda>r. if employee_id r = eid
                     then r\<lparr>e_first_name := firstName b, e_last_name := lastName b,
                            e_email := email b, e_role := role b, e_dob := dob b\<rparr> else r)
               (employees st),
         employee_phones :=
           filter (\<lambda>t. fst t \<noteq> eid) (employee_phones st) @
           map (\<lambda>phone. (eid, phone)) (case mobileno b of None \<Rightarrow> [] | Some phones \<Rightarrow> phones)\<rparr>)"
  unfolding put_employees_def query_update_employees
  by (auto simp add: Let_def delete_employee_phones_def insert_employee_phones_def
      split: option.split)

lemma put_customers_eq:
  "put_customers cid b st =
     (if select_other_customers_by_email (email b) cid st \<noteq> []
      then (reply 400 (Message ''Email already exists''), st)
      else
       (reply 200 (Message ''Customer updated successfully!''),
        st\<lparr>customers :=
           map (\<lambda>r. if customer_id r = cid
                     then r\<lparr>c_firstName := firstName b, c_lastName := lastName b,
                            c_email := email b, c_type := customerType b\<rparr> else r)
               (customers st),
         customer_telephones :=
           filter (\<lambda>t. fst t \<noteq> cid) (customer_telephones st) @
           map (\<lambda>phone. (cid, phone)) (case phoneNumbers b of None \<Rightarrow> [] | Some phones \<Rightarrow> phones)\<rparr>))"
  unfolding put_customers_def query_update_customers
  by (auto simp add: Let_def delete_customer_telephones_def insert_customer_telephones_def
      split: option.split)

lemma phones_of_replaced:
  "phones_of k (filter (\<lambda>t. fst t \<noteq> k) tbl @ map (\<lambda>phone. (k, phone)) phones) = phones"
  by (simp add: phones_of_def filter_map o_def)

text \<open>
  C10. An employee full update leaves the stored nic, username and password of every
  employee row as they were, whatever the request body holds: the UPDATE statement
  assigns first_name, last_name, email, role and dob only.
\<close>

theorem put_employees_keeps_credentials:
  "map (\<lambda>r. (employee_id r, e_nic r, e_username r, e_password r))
       (employees (snd (put_employees eid b st)))
   = map (\<lambda>r. (employee_id r, e_nic r, e_username r, e_password r)) (employees st)"
  by (simp add: put_employees_eq o_def)

text \<open>A request that sends new values for all three: the stored ones stay.\<close>

theorem put_employees_keeps_credentials_witness:
  "map (\<lambda>r. (employee_id r, e_nic r, e_username r, e_password r))
       (employees (snd (put_employees 1
          (no_fields\<lparr>nic := Some ''999999999V'', username := Some ''other'',
             password := Some ''changed''\<rparr>) shop)))
   = [(1, Some ''123456789V'', Some ''kamal1'', Some ''secret1''),
      (2, Some ''200012345678'', Some ''sunil2'', Some ''secret2'')]"
  using put_employees_keeps_credentials
    [of 1 "no_fields\<lparr>nic := Some ''999999999V'', username := Some ''other'',
             password := Some ''changed''\<rparr>" shop]
  by (simp add: shop_def)

lemma sql_eq_NULL: "sql_eq a None = False"
  by (simp add: sql_eq_def split: option.split)

lemma put_customers_status:
  "status (fst (put_customers cid b st)) =
     (if select_other_customers_by_email (email b) cid st = [] then 200 else 400)"
  by (simp add: put_customers_eq reply_def)

text \<open>
  C2 (as amended). Every full update (customer or employee) that is not rejected by the
  duplicate-email check, that is, that answers 200, leaves the entity with exactly the
  submitted phone numbers as its phone rows: none when \<^verbatim>\<open>phoneNumbers\<close>
  (\<^verbatim>\<open>mobileno\<close> for an employee) is absent or empty, whatever it had before.
\<close>

theorem full_update_replaces_phones:
  "(status (fst (put_customers cid cb st)) = 200 \<longrightarrow>
      phones_of cid (customer_telephones (snd (put_customers cid cb st)))
        = (case phoneNumbers cb of None \<Rightarrow> [] | Some phones \<Rightarrow> phones)) \<and>
   (status (fst (put_employees eid eb st)) = 200 \<longrightarrow>
      phones_of eid (employee_phones (snd (put_employees eid eb st)))
        = (case mobileno eb of None \<Rightarrow> [] | Some phones \<Rightarrow> phones))"
  by (simp add: put_customers_eq put_employees_eq phones_of_replaced reply_def)

text \<open>Customer 1 had two phone rows and gets one; employee 2 had one, its request has no
  \<^verbatim>\<open>mobileno\<close>, and it ends with none.\<close>

theorem full_update_replaces_phones_witness:
  "phones_of 1 (customer_telephones shop) = [''0711111111'', ''0722222222''] \<and>
   phoneNumbers one_phone_update = Some [''0766666666''] \<and>
   status (fst (put_customers 1 one_phone_update shop)) = 200 \<and>
   phones_of 1 (customer_telephones (snd (put_customers 1 one_phone_update shop)))
     = [''0766666666''] \<and>
   phones_of 2 (employee_phones shop) = [''0755555555''] \<and>
   mobileno first_name_update = None \<and>
   status (fst (put_employees 2 first_name_update shop)) = 200 \<and>
   phones_of 2 (employee_phones (snd (put_employees 2 first_name_update shop))) = []"
proof -
  have c: "status (fst (put_customers 1 one_phone_update shop)) = 200"
    by (simp add: put_customers_status select_other_customers_by_email_def sql_eq_def
        one_phone_update_def no_fields_def shop_def)
  have e: "status (fst (put_employees 2 first_name_update shop)) = 200"
    by (simp add: put_employees_eq reply_def)
  show ?thesis
    using c e full_update_replaces_phones [of 1 one_phone_update shop 2 first_name_update]
    by (simp add: one_phone_update_def first_name_update_def no_fields_def)
      (simp add: shop_def phones_of_def)
qed

text \<open>C2 as stated fails for a customer update that the duplicate-email check rejects:
  the request has no \<^verbatim>\<open>phoneNumbers\<close>, and both phone rows of customer 1 are still
  there.\<close>

theorem full_update_rejected_keeps_phones:
  "phoneNumbers taken_email_update = None \<and>
   put_customers 1 taken_email_update shop
     = (reply 400 (Message ''Email already exists''), shop) \<and>
   phones_of 1 (customer_telephones (snd (put_customers 1 taken_email_update shop)))
     = [''0711111111'', ''0722222222'']"
  by (simp add: put_customers_eq select_other_customers_by_email_def sql_eq_def
      taken_email_update_def no_fields_def shop_def phones_of_def)

text \<open>
  C7 (as amended). Every full update (customer or employee) that is not rejected by the
  duplicate-email check, that is, that answers 200, overwrites the columns its UPDATE
  statement names with the values of the request, on the row with the given key; a
  field the request does not have is stored as NULL. Rows with another key are as before.
\<close>

theorem full_update_overwrites_columns:
  "(status (fst (put_customers cid cb st)) = 200 \<longrightarrow>
      customers (snd (put_customers cid cb st))
        = map (\<lambda>r. if customer_id r = cid
                    then r\<lparr>c_firstName := firstName cb, c_lastName := lastName cb,
                           c_email := email cb, c_type := customerType cb\<rparr> else r)
              (customers st)) \<and>
   (status (fst (put_employees eid eb st)) = 200 \<longrightarrow>
      employees (snd (put_employees eid eb st))
        = map (\<lambda>r. if employee_id r = eid
                    then r\<lparr>e_first_name := firstName eb, e_last_name := lastName eb,
                           e_email := email eb, e_role := role eb, e_dob := dob eb\<rparr> else r)
              (employees st))"
  by (simp add: put_customers_eq put_employees_eq reply_def)

text \<open>A request with \<^verbatim>\<open>firstName\<close> only: the other assigned columns of the row
  become NULL.\<close>

theorem full_update_overwrites_columns_witness:
  "status (fst (put_customers 2 first_name_update shop)) = 200 \<and>
   customers (snd (put_customers 2 first_name_update shop))
     = [\<lparr>customer_id = 1, c_firstName = Some ''Amal'', c_lastName = Some ''Perera'',
          c_email = Some ''amal@x.com'', c_type = Some ''Regular''\<rparr>,
        \<lparr>customer_id = 2, c_firstName = Some ''Saman'', c_lastName = None,
          c_email = None, c_type = None\<rparr>] \<and>
   status (fst (put_employees 2 first_name_update shop)) = 200 \<and>
   employees (snd (put_employees 2 first_name_update shop))
     = [\<lparr>employee_id = 1, e_first_name = Some ''Kamal'', e_last_name = Some ''Fernando'',
          e_email = Some ''kamal@x.com'', e_nic = Some ''123456789V'', e_role = Some ''owner'',
          e_username = Some ''kamal1'', e_password = Some ''secret1'', e_dob = Some ''1990-01-01''\<rparr>,
        \<lparr>employee_id = 2, e_first_name = Some ''Saman'', e_last_name = None,
          e_email = None, e_nic = Some ''200012345678'', e_role = None,
          e_username = Some ''sunil2'', e_password = Some ''secret2'', e_dob = None\<rparr>]"
proof -
  have c: "status (fst (put_customers 2 first_name_update shop)) = 200"
    by (simp add: put_customers_status select_other_customers_by_email_def sql_eq_NULL
        first_name_update_def no_fields_def)
  have e: "status (fst (put_employees 2 first_name_update shop)) = 200"
    by (simp add: put_employees_eq reply_def)
  show ?thesis
    using c e full_update_overwrites_columns [of 2 first_name_update shop 2 first_name_update]
    by (simp add: first_name_update_def no_fields_def shop_def)
qed

text \<open>C7 as stated fails for a customer update that the duplicate-email check rejects:
  the request has no \<^verbatim>\<open>firstName\<close>, and the stored first name of customer 1 is not
  overwritten.\<close>

theorem full_update_rejected_keeps_columns:
  "firstName taken_email_update = None \<and>
   status (fst (put_customers 1 taken_email_update shop)) = 400 \<and>
   map c_firstName (customers (snd (put_customers 1 taken_email_update shop)))
     = [Some ''Amal'', Some ''Nimal'']"
  by (simp add: put_customers_eq select_other_customers_by_email_def sql_eq_def
      taken_email_update_def no_fields_def shop_def reply_def)

subsection \<open>The duplicate-email check\<close>

text \<open>The customer handler rejects an email that another customer row holds and leaves
  the store as it was; a request without email passes the check, since no row's email
  equals NULL.\<close>

lemma put_customers_duplicate_email:
  assumes "r \<in> set (customers st)" "customer_id r \<noteq> cid" "c_email r = Some e" "email b = Some e"
  shows "put_customers cid b st = (reply 400 (Message ''Email already exists''), st)"
proof -
  have "r \<in> set (select_other_customers_by_email (email b) cid st)"
    using assms by (simp add: select_other_customers_by_email_def sql_eq_def)
  then have "select_other_customers_by_email (email b) cid st \<noteq> []" by auto
  then show ?thesis by (simp add: put_customers_eq)
qed

lemma put_customers_absent_email:
  "email b = None \<Longrightarrow> status (fst (put_customers cid b st)) = 200"
  by (simp add: put_customers_eq select_other_customers_by_email_def sql_eq_NULL reply_def)

text \<open>The employee handler has no such check: it answers 200 on every request.\<close>

lemma put_employees_never_rejects:
  "status (fst (put_employees eid b st)) = 200"
  by (simp add: put_employees_eq reply_def)

text \<open>
  C4. The claim asks that a full update is rejected with 400 when another row holds the
  submitted email. The employee handler accepts it: employee 1 takes the email of
  employee 2, and the answer is 200.
\<close>

theorem put_employees_accepts_duplicate_email:
  "map e_email (employees shop) = [Some ''kamal@x.com'', Some ''sunil@x.com''] \<and>
   email sunil_email_update = Some ''sunil@x.com'' \<and>
   status (fst (put_employees 1 sunil_email_update shop)) = 200 \<and>
   map e_email (employees (snd (put_employees 1 sunil_email_update shop)))
     = [Some ''sunil@x.com'', Some ''sunil@x.com'']"
  by (simp add: put_employees_eq sunil_email_update_def shop_def no_fields_def reply_def)

section \<open>Delete\<close>

text \<open>The customer handler never touches \<^verbatim>\<open>customer_telephones\<close>; the employee
  handler removes the phone rows of the employee.\<close>

lemma delete_customers_keeps_customer_telephones:
  "customer_telephones (snd (delete_customers cid st)) = customer_telephones st"
  by (simp add: delete_customers_def delete_customer_row_def delete_telephones_def Let_def
      split: option.split)

lemma delete_employees_removes_phones:
  "phones_of eid (employee_phones (snd (delete_employees eid st))) = []"
  by (simp add: delete_employees_def delete_employee_row_def delete_employee_phones_def Let_def phones_of_def)

lemma get_customers_id_after_delete:
  "status (fst (get_customers_id cid (snd (delete_customers cid st)))) = 404"
  by (simp add: get_customers_id_def select_customer_joined_def select_customers_joined_def
      delete_customers_def delete_customer_row_def delete_telephones_def Let_def reply_def filter_map o_def
      split: option.split)

text \<open>
  C5. The claim asks that after a customer delete no phone row of that customer is left
  in \<^verbatim>\<open>customer_telephones\<close>. Customer 1 has two phone rows; the delete answers 200,
  a lookup of customer 1 then answers 404, and both phone rows are still in the table.
\<close>

theorem delete_customers_leaves_phone_rows:
  "phones_of 1 (customer_telephones shop) = [''0711111111'', ''0722222222''] \<and>
   status (fst (delete_customers 1 shop)) = 200 \<and>
   status (fst (get_customers_id 1 (snd (delete_customers 1 shop)))) = 404 \<and>
   phones_of 1 (customer_telephones (snd (delete_customers 1 shop))) = [''0711111111'', ''0722222222'']"
  by (simp add: get_customers_id_after_delete delete_customers_keeps_customer_telephones)
     (simp add: delete_customers_def delete_customer_row_def delete_telephones_def shop_def reply_def phones_of_def)

section \<open>Registration\<close>

lemma check_Nil: "check ok field msg = [] \<longleftrightarrow> ok"
  by (simp add: check_def)

lemma first_existing_phone_None:
  "first_existing_phone tbl phones = None \<longleftrightarrow> set phones \<inter> snd ` set tbl = {}"
  by (induction phones) (auto simp: select_by_phone_def filter_empty_conv)

lemma first_existing_phone_first:
  "set pre \<inter> snd ` set tbl = {} \<Longrightarrow> p \<in> snd ` set tbl \<Longrightarrow>
   first_existing_phone tbl (pre @ p # rest) = Some p"
  by (induction pre) (auto simp: select_by_phone_def filter_empty_conv)

lemma first_existing_phone_Some:
  "set phones \<inter> snd ` set tbl \<noteq> {} \<Longrightarrow> \<exists>p. first_existing_phone tbl phones = Some p"
  using first_existing_phone_None [of tbl phones] by (cases "first_existing_phone tbl phones") auto

lemma str_nonempty: "str v \<noteq> [] \<Longrightarrow> v \<noteq> None"
  by (cases v) (simp_all add: str_def)

lemma validate_register_customer_email:
  "validate_register_customer L b = [] \<Longrightarrow> email b \<noteq> None"
  by (rule str_nonempty) (simp add: validate_register_customer_def check_Nil)

lemma validate_register_employee_email:
  "validate_register_employee L b = [] \<Longrightarrow> email b \<noteq> None \<and> username b \<noteq> None"
  by (intro conjI; rule str_nonempty) (simp_all add: validate_register_employee_def check_Nil)

lemma sql_eq_Some: "sql_eq a (Some x) \<longleftrightarrow> a = Some x"
  by (simp add: sql_eq_def split: option.split)

lemma select_customers_by_email_Nil:
  "e \<noteq> None \<Longrightarrow> select_customers_by_email e st = [] \<longleftrightarrow> e \<notin> c_email ` set (customers st)"
  by (cases e) (force simp: select_customers_by_email_def sql_eq_Some filter_empty_conv)+

lemma select_employees_by_email_Nil:
  "e \<noteq> None \<Longrightarrow> select_employees_by_email e st = [] \<longleftrightarrow> e \<notin> e_email ` set (employees st)"
  by (cases e) (force simp: select_employees_by_email_def sql_eq_Some filter_empty_conv)+

lemma select_employees_by_username_Nil:
  "u \<noteq> None \<Longrightarrow> select_employees_by_username u st = [] \<longleftrightarrow> u \<notin> e_username ` set (employees st)"
  by (cases u) (force simp: select_employees_by_username_def sql_eq_Some filter_empty_conv)+

lemma post_customers_register_ok:
  assumes "validate_register_customer L b = []"
    and "email b \<notin> c_email ` set (customers st)"
    and "phoneNumbers b = Some phones"
    and "set phones \<inter> snd ` set (customer_telephones st) = {}"
  shows "post_customers_register L b st =
     (reply 201 (Message ''Customer registered successfully!''),
      st\<lparr>customers := customers st @
           [\<lparr>customer_id = customers_auto_increment st, c_firstName = firstName b,
             c_lastName = lastName b, c_email = email b, c_type = customerType b\<rparr>],
         customers_auto_increment := customers_auto_increment st + 1,
         customer_telephones := customer_telephones st @
           map (\<lambda>phone. (customers_auto_increment st, phone)) phones\<rparr>)"
proof -
  have e: "select_customers_by_email (email b) st = []"
    using assms(1,2) validate_register_customer_email select_customers_by_email_Nil by blast
  have p: "first_existing_phone (customer_telephones st) phones = None"
    using assms(4) by (simp add: first_existing_phone_None)
  show ?thesis
    unfolding post_customers_register_def
    by (simp add: assms(1,3) e p Let_def insert_customer_def insert_customer_telephones_def)
qed

lemma post_employees_register_ok:
  assumes "validate_register_employee L b = []"
    and "email b \<notin> e_email ` set (employees st)"
    and "username b \<notin> e_username ` set (employees st)"
    and "mobileno b = Some phones"
    and "set phones \<inter> snd ` set (employee_phones st) = {}"
  shows "post_employees_register L b st =
     (reply 201 (Message ''Employee registered successfully!''),
      st\<lparr>employees := employees st @
           [\<lparr>employee_id = employees_auto_increment st, e_first_name = firstName b,
             e_last_name = lastName b, e_email = email b, e_nic = nic b, e_role = role b,
             e_username = username b, e_password = password b, e_dob = dob b\<rparr>],
         employees_auto_increment := employees_auto_increment st + 1,
         employee_phones := employee_phones st @
           map (\<lambda>phone. (employees_auto_increment st, phone)) phones\<rparr>)"
proof -
  have e: "select_employees_by_email (email b) st = []"
    using assms(1,2) validate_register_employee_email select_employees_by_email_Nil by blast
  have u: "select_employees_by_username (username b) st = []"
    using assms(1,3) validate_register_employee_email select_employees_by_username_Nil by blast
  have p: "first_existing_phone (employee_phones st) phones = None"
    using assms(5) by (simp add: first_existing_phone_None)
  show ?thesis
    unfolding post_employees_register_def
    by (simp add: assms(1,4) e u p Let_def insert_employee_def insert_employee_phones_def)
qed

lemma validate_new_customer: "validate_register_customer example_lib new_customer = []"
  by (simp add: validate_register_customer_def check_def str_def new_customer_def no_fields_def
      example_lib_def name_pattern_def is_alpha_def validate_phones_def phone_pattern_def is_digit_def)

lemma validate_new_employee: "validate_register_employee example_lib new_employee = []"
  by (simp add: validate_register_employee_def check_def str_def new_employee_def no_fields_def
      example_lib_def name_pattern_def is_alpha_def validate_phones_def phone_pattern_def is_digit_def
      nic_pattern_def validate_dob_def)


lemma post_customers_register_collision:
  assumes "phoneNumbers b = Some phones"
    and "set phones \<inter> snd ` set (customer_telephones st) \<noteq> {}"
  shows "status (fst (post_customers_register L b st)) = 400 \<and>
         snd (post_customers_register L b st) = st"
proof -
  obtain p where "first_existing_phone (customer_telephones st) phones = Some p"
    using first_existing_phone_Some [OF assms(2)] by blast
  then show ?thesis
    by (simp add: post_customers_register_def assms(1) Let_def reply_def)
qed

lemma post_employees_register_collision:
  assumes "mobileno b = Some phones"
    and "set phones \<inter> snd ` set (employee_phones st) \<noteq> {}"
  shows "status (fst (post_employees_register L b st)) = 400 \<and>
         snd (post_employees_register L b st) = st"
proof -
  obtain p where "first_existing_phone (employee_phones st) phones = Some p"
    using first_existing_phone_Some [OF assms(2)] by blast
  then show ?thesis
    by (simp add: post_employees_register_def assms(1) Let_def reply_def)
qed

lemma post_customers_register_first_collision:
  assumes "validate_register_customer L b = []"
    and "email b \<notin> c_email ` set (customers st)"
    and "phoneNumbers b = Some (pre @ p # rest)"
    and "set pre \<inter> snd ` set (customer_telephones st) = {}"
    and "p \<in> snd ` set (customer_telephones st)"
  shows "post_customers_register L b st =
     (reply 400 (Message (''Phone number '' @ p @ '' already exists'')), st)"
proof -
  have e: "select_customers_by_email (email b) st = []"
    using assms(1,2) validate_register_customer_email select_customers_by_email_Nil by blast
  have p: "first_existing_phone (customer_telephones st) (pre @ p # rest) = Some p"
    using assms(4,5) by (rule first_existing_phone_first)
  show ?thesis
    unfolding post_customers_register_def
    by (simp add: assms(1,3) e p Let_def)
qed

lemma post_employees_register_first_collision:
  assumes "validate_register_employee L b = []"
    and "email b \<notin> e_email ` set (employees st)"
    and "username b \<notin> e_username ` set (employees st)"
    and "mobileno b = Some (pre @ p # rest)"
    and "set pre \<inter> snd ` set (employee_phones st) = {}"
    and "p \<in> snd ` set (employee_phones st)"
  shows "post_employees_register L b st =
     (reply 400 (Message (''Phone number '' @ p @ '' already exists'')), st)"
proof -
  have e: "select_employees_by_email (email b) st = []"
    using assms(1,2) validate_register_employee_email select_employees_by_email_Nil by blast
  have u: "select_employees_by_username (username b) st = []"
    using assms(1,3) validate_register_employee_email select_employees_by_username_Nil by blast
  have p: "first_existing_phone (employee_phones st) (pre @ p # rest) = Some p"
    using assms(5,6) by (rule first_existing_phone_first)
  show ?thesis
    unfolding post_employees_register_def
    by (simp add: assms(1,4) e u p Let_def)
qed

text \<open>
  C1. A registration (customer or employee) that passes validation, whose email (and
  username, for an employee) no stored row holds and none of whose N phone numbers is in
  the entity's phone table, answers 201, appends one parent row whose key is the
  generated id, and appends exactly N rows to the entity's phone table, one per number,
  each with that id as its parent key; the other phone table is unchanged.
\<close>

theorem register_inserts_phone_rows:
  "(validate_register_customer L cb = [] \<and>
    email cb \<notin> c_email ` set (customers st) \<and>
    phoneNumbers cb = Some phones \<and>
    set phones \<inter> snd ` set (customer_telephones st) = {}
    \<longrightarrow>
      status (fst (post_customers_register L cb st)) = 201 \<and>
      customers (snd (post_customers_register L cb st))
        = customers st @
          [\<lparr>customer_id = customers_auto_increment st, c_firstName = firstName cb,
            c_lastName = lastName cb, c_email = email cb, c_type = customerType cb\<rparr>] \<and>
      customer_telephones (snd (post_customers_register L cb st))
        = customer_telephones st @ map (\<lambda>phone. (customers_auto_increment st, phone)) phones \<and>
      length (customer_telephones (snd (post_customers_register L cb st)))
        = length (customer_telephones st) + length phones \<and>
      employee_phones (snd (post_customers_register L cb st)) = employee_phones st) \<and>
   (validate_register_employee L eb = [] \<and>
    email eb \<notin> e_email ` set (employees st) \<and>
    username eb \<notin> e_username ` set (employees st) \<and>
    mobileno eb = Some mobiles \<and>
    set mobiles \<inter> snd ` set (employee_phones st) = {}
    \<longrightarrow>
      status (fst (post_employees_register L eb st)) = 201 \<and>
      employees (snd (post_employees_register L eb st))
        = employees st @
          [\<lparr>employee_id = employees_auto_increment st, e_first_name = firstName eb,
            e_last_name = lastName eb, e_email = email eb, e_nic = nic eb, e_role = role eb,
            e_username = username eb, e_password = password eb, e_dob = dob eb\<rparr>] \<and>
      employee_phones (snd (post_employees_register L eb st))
        = employee_phones st @ map (\<lambda>phone. (employees_auto_increment st, phone)) mobiles \<and>
      length (employee_phones (snd (post_employees_register L eb st)))
        = length (employee_phones st) + length mobiles \<and>
      customer_telephones (snd (post_employees_register L eb st)) = customer_telephones st)"
  by (simp add: post_customers_register_ok post_employees_register_ok reply_def)

text \<open>A customer with two numbers and an employee with one: the new rows carry the id
  3 of the new parent.\<close>

theorem register_inserts_phone_rows_witness:
  "validate_register_customer example_lib new_customer = [] \<and>
   phoneNumbers new_customer = Some [''0766666666'', ''0777777777''] \<and>
   status (fst (post_customers_register example_lib new_customer shop)) = 201 \<and>
   map customer_id (customers (snd (post_customers_register example_lib new_customer shop)))
     = [1, 2, 3] \<and>
   customer_telephones (snd (post_customers_register example_lib new_customer shop))
     = [(1, ''0711111111''), (1, ''0722222222''), (2, ''0733333333''),
        (3, ''0766666666''), (3, ''0777777777'')] \<and>
   validate_register_employee example_lib new_employee = [] \<and>
   mobileno new_employee = Some [''0788888888''] \<and>
   status (fst (post_employees_register example_lib new_employee shop)) = 201 \<and>
   map employee_id (employees (snd (post_employees_register example_lib new_employee shop)))
     = [1, 2, 3] \<and>
   employee_phones (snd (post_employees_register example_lib new_employee shop))
     = [(1, ''0744444444''), (2, ''0755555555''), (3, ''0788888888'')]"
proof -
  have c: "email new_customer \<notin> c_email ` set (customers shop)"
    "phoneNumbers new_customer = Some [''0766666666'', ''0777777777'']"
    "set [''0766666666'', ''0777777777''] \<inter> snd ` set (customer_telephones shop) = {}"
    by (simp_all add: new_customer_def no_fields_def shop_def)
  have e: "email new_employee \<notin> e_email ` set (employees shop)"
    "username new_employee \<notin> e_username ` set (employees shop)"
    "mobileno new_employee = Some [''0788888888'']"
    "set [''0788888888''] \<inter> snd ` set (employee_phones shop) = {}"
    by (simp_all add: new_employee_def no_fields_def shop_def)
  show ?thesis
    using validate_new_customer validate_new_employee c e
      register_inserts_phone_rows [where L = example_lib and cb = new_customer and st = shop
        and phones = "[''0766666666'', ''0777777777'']" and eb = new_employee
        and mobiles = "[''0788888888'']"]
    by (simp add: shop_def)
qed

text \<open>
  C3 (as amended). A registration whose phone list holds a number that is already in the
  entity's phone table answers 400 and leaves the store unchanged, so no parent row is
  inserted. When the request also passes validation and its email (and username, for an
  employee) is not held by a stored row, the message is
  \<^verbatim>\<open>Phone number {value} already exists\<close> for the first such number in input order,
  whatever numbers follow it in the list.
\<close>

theorem register_rejects_existing_phone:
  "(phoneNumbers cb = Some phones \<and>
    set phones \<inter> snd ` set (customer_telephones st) \<noteq> {}
    \<longrightarrow> status (fst (post_customers_register L cb st)) = 400 \<and>
        snd (post_customers_register L cb st) = st) \<and>
   (validate_register_customer L cb = [] \<and>
    email cb \<notin> c_email ` set (customers st) \<and>
    phoneNumbers cb = Some (pre @ p # rest) \<and>
    set pre \<inter> snd ` set (customer_telephones st) = {} \<and>
    p \<in> snd ` set (customer_telephones st)
    \<longrightarrow> post_customers_register L cb st
          = (reply 400 (Message (''Phone number '' @ p @ '' already exists'')), st)) \<and>
   (mobileno eb = Some mobiles \<and>
    set mobiles \<inter> snd ` set (employee_phones st) \<noteq> {}
    \<longrightarrow> status (fst (post_employees_register L eb st)) = 400 \<and>
        snd (post_employees_register L eb st) = st) \<and>
   (validate_register_employee L eb = [] \<and>
    email eb \<notin> e_email ` set (employees st) \<and>
    username eb \<notin> e_username ` set (employees st) \<and>
    mobileno eb = Some (pre' @ q # rest') \<and>
    set pre' \<inter> snd ` set (employee_phones st) = {} \<and>
    q \<in> snd ` set (employee_phones st)
    \<longrightarrow> post_employees_register L eb st
          = (reply 400 (Message (''Phone number '' @ q @ '' already exists'')), st))"
  using post_customers_register_collision [of cb phones st L]
    post_customers_register_first_collision [of L cb st pre p rest]
    post_employees_register_collision [of eb mobiles st L]
    post_employees_register_first_collision [of L eb st pre' q rest']
  by blast

lemma validate_colliding_customer: "validate_register_customer example_lib colliding_customer = []"
  by (simp add: validate_register_customer_def check_def str_def colliding_customer_def
      new_customer_def no_fields_def example_lib_def name_pattern_def is_alpha_def
      validate_phones_def phone_pattern_def is_digit_def)

lemma validate_colliding_employee: "validate_register_employee example_lib colliding_employee = []"
  by (simp add: validate_register_employee_def check_def str_def colliding_employee_def
      new_employee_def no_fields_def example_lib_def name_pattern_def is_alpha_def
      validate_phones_def phone_pattern_def is_digit_def nic_pattern_def validate_dob_def)

lemma validate_returning_customer: "validate_register_customer example_lib returning_customer = []"
  by (simp add: validate_register_customer_def check_def str_def returning_customer_def
      new_customer_def no_fields_def example_lib_def name_pattern_def is_alpha_def
      validate_phones_def phone_pattern_def is_digit_def)

text \<open>The second number of the customer's list is the first stored one and is the one
  named; the third is stored as well and plays no part.\<close>

theorem register_rejects_existing_phone_witness:
  "phoneNumbers colliding_customer = Some [''0766666666'', ''0722222222'', ''0711111111''] \<and>
   post_customers_register example_lib colliding_customer shop
     = (reply 400 (Message ''Phone number 0722222222 already exists''), shop) \<and>
   mobileno colliding_employee = Some [''0755555555''] \<and>
   post_employees_register example_lib colliding_employee shop
     = (reply 400 (Message ''Phone number 0755555555 already exists''), shop)"
proof -
  have c: "phoneNumbers colliding_customer = Some ([''0766666666''] @ ''0722222222'' # [''0711111111''])"
    "set ([''0766666666''] @ ''0722222222'' # [''0711111111'']) \<inter> snd ` set (customer_telephones shop) \<noteq> {}"
    "email colliding_customer \<notin> c_email ` set (customers shop)"
    "set [''0766666666''] \<inter> snd ` set (customer_telephones shop) = {}"
    "''0722222222'' \<in> snd ` set (customer_telephones shop)"
    by (simp_all add: colliding_customer_def new_customer_def no_fields_def shop_def)
  have e: "mobileno colliding_employee = Some ([] @ ''0755555555'' # [])"
    "set ([] @ ''0755555555'' # []) \<inter> snd ` set (employee_phones shop) \<noteq> {}"
    "email colliding_employee \<notin> e_email ` set (employees shop)"
    "username colliding_employee \<notin> e_username ` set (employees shop)"
    "set [] \<inter> snd ` set (employee_phones shop) = {}"
    "''0755555555'' \<in> snd ` set (employee_phones shop)"
    by (simp_all add: colliding_employee_def new_employee_def no_fields_def shop_def)
  show ?thesis
    using validate_colliding_customer validate_colliding_employee c e
      register_rejects_existing_phone [where L = example_lib and cb = colliding_customer
        and st = shop and phones = "[''0766666666''] @ ''0722222222'' # [''0711111111'']"
        and pre = "[''0766666666'']" and p = "''0722222222''" and rest = "[''0711111111'']"
        and eb = colliding_employee and mobiles = "[] @ ''0755555555'' # []"
        and pre' = "[]" and q = "''0755555555''" and rest' = "[]"]
    by simp
qed

text \<open>C3 as stated fails for a request whose email is stored as well: the email check
  comes first, and the message names no phone number.\<close>

theorem register_existing_email_and_phone:
  "validate_register_customer example_lib returning_customer = [] \<and>
   phoneNumbers returning_customer = Some [''0711111111''] \<and>
   ''0711111111'' \<in> snd ` set (customer_telephones shop) \<and>
   post_customers_register example_lib returning_customer shop
     = (reply 400 (Message ''Email already exists''), shop) \<and>
   Message ''Email already exists'' \<noteq> Message ''Phone number 0711111111 already exists''"
proof -
  have "select_customers_by_email (email returning_customer) shop \<noteq> []"
    by (simp add: select_customers_by_email_def returning_customer_def new_customer_def
        no_fields_def shop_def sql_eq_def)
  then have "post_customers_register example_lib returning_customer shop
     = (reply 400 (Message ''Email already exists''), shop)"
    by (simp add: post_customers_register_def validate_returning_customer)
  then show ?thesis
    by (simp add: validate_returning_customer)
      (simp add: returning_customer_def new_customer_def no_fields_def shop_def)
qed

section \<open>Partial update\<close>

text \<open>
  What the PATCH handler does, for every body: 400 when no key of the body is on the
  allow-list; 500 with the store's unknown-column error when \<^verbatim>\<open>customerType\<close> is among
  the keys, since the handler uses the key as the column name and the table has no column
  of that name (the INSERT and the PUT handler store the customer type in \<^verbatim>\<open>type\<close>);
  otherwise 200, with the columns \<^verbatim>\<open>firstName\<close>, \<^verbatim>\<open>lastName\<close> and \<^verbatim>\<open>email\<close>
  assigned as the body says.
\<close>

lemma patch_fields_eq:
  "patch_fields updates fs vs =
     (fs @ map (\<lambda>u. fst u @ '' = ?'') (accepted updates), vs @ map snd (accepted updates))"
  by (induction updates fs vs rule: patch_fields.induct) (auto simp: accepted_def)

lemma accepted_plain:
  "list_all (\<lambda>k. k \<noteq> [] \<and> CHR '' '' \<notin> set k) (map fst (accepted updates))"
  by (induction updates) (auto simp: accepted_def)

lemma find_unknown_column:
  "find (\<lambda>c. c \<notin> set customer_columns) (map fst (accepted updates)) =
     (if ''customerType'' \<in> fst ` set (accepted updates) then Some ''customerType'' else None)"
  by (induction updates) (auto simp: accepted_def customer_columns_def)

lemma patch_customers_eq:
  "patch_customers cid updates st =
     (if accepted updates = []
        then (reply 400 (Message ''No valid fields provided for update''), st)
      else if ''customerType'' \<in> fst ` set (accepted updates)
        then (reply 500 (Error (UnknownColumn ''customerType'')), st)
      else (reply 200 (Message ''Customer updated successfully!''),
            st\<lparr>customers :=
                 map (\<lambda>r. if customer_id r = cid
                           then foldl set_customer_column r (accepted updates) else r)
                     (customers st)\<rparr>))"
proof (cases "accepted updates = []")
  case True
  then show ?thesis by (simp add: patch_customers_def patch_fields_eq)
next
  case False
  then have ks: "map fst (accepted updates) \<noteq> []" by simp
  have p: "parse_update (''UPDATE customers SET '' @
              join '', '' (map (\<lambda>u. fst u @ '' = ?'') (accepted updates)) @
              '' WHERE customer_id = ?'')
           = Some (''customers'', map fst (accepted updates), ''customer_id'')"
    using parse_update_built [OF ks accepted_plain, of "''customers''" "''customer_id''"]
    by (simp add: o_def)
  show ?thesis
    using False
    by (simp add: patch_customers_def patch_fields_eq query_update_def p [simplified]
        check_update_def find_unknown_column zip_map_fst_snd)
qed

lemma patch_customers_customerType:
  "patch_customers cid [(''customerType'', v)] st
     = (reply 500 (Error (UnknownColumn ''customerType'')), st)"
  by (simp add: patch_customers_eq accepted_def)

lemma patch_customers_firstName:
  "patch_customers cid [(''firstName'', v)] st
     = (reply 200 (Message ''Customer updated successfully!''),
        st\<lparr>customers := map (\<lambda>r. if customer_id r = cid then r\<lparr>c_firstName := v\<rparr> else r)
                               (customers st)\<rparr>)"
  by (simp add: patch_customers_eq accepted_def set_customer_column_def)

text \<open>
  C6. The claim asks that a PATCH with \<^verbatim>\<open>customerType\<close> alone answers 200 and updates
  the stored customer type. On customer 1 it answers 500 with the store's unknown-column
  error, and the stored types are as before.
\<close>

theorem patch_customerType_fails:
  "map c_type (customers shop) = [Some ''Regular'', Some ''Normal''] \<and>
   patch_customers 1 [(''customerType'', Some ''Normal'')] shop
     = (reply 500 (Error (UnknownColumn ''customerType'')), shop)"
  by (simp add: patch_customers_customerType) (simp add: shop_def)

section \<open>Product update\<close>

lemma put_products_query_no_fields:
  assumes "productName b = None" "model b = None" "modelNo b = None"
  shows "put_products_query b None = (''UPDATE products SE WHERE product_id = ?'', [])"
  by (simp add: put_products_query_def assms truthy_def slice_end_def)

lemma parse_update_truncated:
  "parse_update ''UPDATE products SE WHERE product_id = ?'' = None"
  by code_simp

text \<open>
  C8. A product update with no productName, model or modelNo and no uploaded file builds
  the statement \<^verbatim>\<open>UPDATE products SE WHERE product_id = ?\<close>: the slice that should
  remove a trailing comma removes the end of SET. The store refuses it, so the handler
  answers 500, never 200, and the store is unchanged.
\<close>

theorem put_products_without_fields_fails:
  assumes "productName b = None" and "model b = None" and "modelNo b = None"
  shows "fst (put_products_query b None) = ''UPDATE products SE WHERE product_id = ?'' \<and>
         put_products pid b None st
           = (reply 500 (Error (SyntaxError ''UPDATE products SE WHERE product_id = ?'')), st) \<and>
         status (fst (put_products pid b None st)) \<noteq> 200"
  by (simp add: put_products_def put_products_query_no_fields [OF assms] query_update_def
      parse_update_truncated reply_def)

theorem put_products_without_fields_fails_witness:
  "productName no_fields = None \<and> model no_fields = None \<and> modelNo no_fields = None \<and>
   fst (put_products_query no_fields None) = ''UPDATE products SE WHERE product_id = ?'' \<and>
   status (fst (put_products 1 no_fields None shop)) = 500 \<and>
   snd (put_products 1 no_fields None shop) = shop"
proof -
  have h: "productName no_fields = None" "model no_fields = None" "modelNo no_fields = None"
    by (simp_all add: no_fields_def)
  show ?thesis
    using h put_products_without_fields_fails [OF h, of 1 shop]
    by (simp add: reply_def)
qed

text \<open>With at least one truthy field or a file the statement is well formed, whichever
  fields they are, and the handler answers 200.\<close>

lemma parse_update_products:
  "parse_update ''UPDATE products SET product_name = ? WHERE product_id = ?''
     = Some (''products'', [''product_name''], ''product_id'')"
  "parse_update ''UPDATE products SET model = ? WHERE product_id = ?''
     = Some (''products'', [''model''], ''product_id'')"
  "parse_update ''UPDATE products SET product_name = ?, model = ? WHERE product_id = ?''
     = Some (''products'', [''product_name'', ''model''], ''product_id'')"
  "parse_update ''UPDATE products SET model_no = ? WHERE product_id = ?''
     = Some (''products'', [''model_no''], ''product_id'')"
  "parse_update ''UPDATE products SET product_name = ?, model_no = ? WHERE product_id = ?''
     = Some (''products'', [''product_name'', ''model_no''], ''product_id'')"
  "parse_update ''UPDATE products SET model = ?, model_no = ? WHERE product_id = ?''
     = Some (''products'', [''model'', ''model_no''], ''product_id'')"
  "parse_update ''UPDATE products SET product_name = ?, model = ?, model_no = ? WHERE product_id = ?''
     = Some (''products'', [''product_name'', ''model'', ''model_no''], ''product_id'')"
  "parse_update ''UPDATE products SET product_image = ? WHERE product_id = ?''
     = Some (''products'', [''product_image''], ''product_id'')"
  "parse_update ''UPDATE products SET product_name = ?, product_image = ? WHERE product_id = ?''
     = Some (''products'', [''product_name'', ''product_image''], ''product_id'')"
  "parse_update ''UPDATE products SET model = ?, product_image = ? WHERE product_id = ?''
     = Some (''products'', [''model'', ''product_image''], ''product_id'')"
  "parse_update ''UPDATE products SET product_name = ?, model = ?, product_image = ? WHERE product_id = ?''
     = Some (''products'', [''product_name'', ''model'', ''product_image''], ''product_id'')"
  "parse_update ''UPDATE products SET model_no = ?, product_image = ? WHERE product_id = ?''
     = Some (''products'', [''model_no'', ''product_image''], ''product_id'')"
  "parse_update ''UPDATE products SET product_name = ?, model_no = ?, product_image = ? WHERE product_id = ?''
     = Some (''products'', [''product_name'', ''model_no'', ''product_image''], ''product_id'')"
  "parse_update ''UPDATE products SET model = ?, model_no = ?, product_image = ? WHERE product_id = ?''
     = Some (''products'', [''model'', ''model_no'', ''product_image''], ''product_id'')"
  "parse_update ''UPDATE products SET product_name = ?, model = ?, model_no = ?, product_image = ? WHERE product_id = ?''
     = Some (''products'', [''product_name'', ''model'', ''model_no'', ''product_image''], ''product_id'')"
  by code_simp+

lemma put_products_status:
  "status (fst (put_products pid b file st)) =
     (if truthy (productName b) \<or> truthy (model b) \<or> truthy (modelNo b) \<or> file \<noteq> None
      then 200 else 500)"
  by (cases "file")
    (simp_all add: put_products_def put_products_query_def truthy_def slice_end_def
      query_update_def parse_update_products parse_update_truncated check_update_def
      product_columns_def reply_def Let_def)

section \<open>Reading entities with their phone numbers\<close>

lemma format_phoneNumbers_eq:
  "format_phoneNumbers v =
     JsArray (case v of None \<Rightarrow> [] | Some s \<Rightarrow> if s = [] then [] else split (CHR '','') s)"
  by (simp add: format_phoneNumbers_def truthy_def split: option.split)

lemma GROUP_CONCAT_no_rows: "GROUP_CONCAT n [] = None"
  by (simp add: GROUP_CONCAT_def)

text \<open>
  C9 (as amended). GetAll and GetById on customers and employees return, for every entity,
  a \<^verbatim>\<open>phoneNumbers\<close> field that is an array, never null: the empty array when the
  aggregated concatenation is NULL, which it is for an entity with no phone row, or is the
  empty string, and otherwise the list obtained by splitting the concatenation at its
  commas.
\<close>

theorem joined_reads_return_phone_arrays:
  "get_customers_all st =
     (reply 200 (Customers (map (\<lambda>c. \<lparr>columns = c, ent_phoneNumbers = JsArray
          (case GROUP_CONCAT (group_concat_max_len st)
                  (phones_of (customer_id c) (customer_telephones st)) of
             None \<Rightarrow> []
           | Some s \<Rightarrow> if s = [] then [] else split (CHR '','') s)\<rparr>) (customers st))), st) \<and>
   get_customers_id cid st =
     (case filter (\<lambda>c. customer_id c = cid) (customers st) of
        [] \<Rightarrow> (reply 404 (Message ''Customer not found''), st)
      | c # others \<Rightarrow>
          (reply 200 (Customer \<lparr>columns = c, ent_phoneNumbers = JsArray
             (case GROUP_CONCAT (group_concat_max_len st)
                     (phones_of (customer_id c) (customer_telephones st)) of
                None \<Rightarrow> []
              | Some s \<Rightarrow> if s = [] then [] else split (CHR '','') s)\<rparr>), st)) \<and>
   get_employees_all st =
     (reply 200 (Employees (map (\<lambda>e. \<lparr>columns = e, ent_phoneNumbers = JsArray
          (case GROUP_CONCAT (group_concat_max_len st)
                  (phones_of (employee_id e) (employee_phones st)) of
             None \<Rightarrow> []
           | Some s \<Rightarrow> if s = [] then [] else split (CHR '','') s)\<rparr>) (employees st))), st) \<and>
   get_employees_id eid st =
     (case filter (\<lambda>e. employee_id e = eid) (employees st) of
        [] \<Rightarrow> (reply 404 (Message ''Employee not found''), st)
      | e # others \<Rightarrow>
          (reply 200 (Employee \<lparr>columns = e, ent_phoneNumbers = JsArray
             (case GROUP_CONCAT (group_concat_max_len st)
                     (phones_of (employee_id e) (employee_phones st)) of
                None \<Rightarrow> []
              | Some s \<Rightarrow> if s = [] then [] else split (CHR '','') s)\<rparr>), st)) \<and>
   GROUP_CONCAT (group_concat_max_len st) [] = None"
proof -
  have 1: "select_customer_joined cid st =
      map (\<lambda>c. (c, GROUP_CONCAT (group_concat_max_len st)
                     (phones_of (customer_id c) (customer_telephones st))))
          (filter (\<lambda>c. customer_id c = cid) (customers st))"
    by (simp add: select_customer_joined_def select_customers_joined_def filter_map o_def)
  have 2: "select_employee_joined eid st =
      map (\<lambda>e. (e, GROUP_CONCAT (group_concat_max_len st)
                     (phones_of (employee_id e) (employee_phones st))))
          (filter (\<lambda>e. employee_id e = eid) (employees st))"
    by (simp add: select_employee_joined_def select_employees_joined_def filter_map o_def)
  have a: "get_customers_all st = (reply 200 (Customers (map (\<lambda>c. \<lparr>columns = c, ent_phoneNumbers = JsArray
          (case GROUP_CONCAT (group_concat_max_len st)
                  (phones_of (customer_id c) (customer_telephones st)) of
             None \<Rightarrow> []
           | Some s \<Rightarrow> if s = [] then [] else split (CHR '','') s)\<rparr>) (customers st))), st)"
    by (simp add: get_customers_all_def select_customers_joined_def format_row_def
        format_phoneNumbers_eq o_def)
  have b: "get_employees_all st = (reply 200 (Employees (map (\<lambda>e. \<lparr>columns = e, ent_phoneNumbers = JsArray
          (case GROUP_CONCAT (group_concat_max_len st)
                  (phones_of (employee_id e) (employee_phones st)) of
             None \<Rightarrow> []
           | Some s \<Rightarrow> if s = [] then [] else split (CHR '','') s)\<rparr>) (employees st))), st)"
    by (simp add: get_employees_all_def select_employees_joined_def format_row_def
        format_phoneNumbers_eq o_def)
  have c: "get_customers_id cid st =
     (case filter (\<lambda>c. customer_id c = cid) (customers st) of
        [] \<Rightarrow> (reply 404 (Message ''Customer not found''), st)
      | c # others \<Rightarrow>
          (reply 200 (Customer \<lparr>columns = c, ent_phoneNumbers = JsArray
             (case GROUP_CONCAT (group_concat_max_len st)
                     (phones_of (customer_id c) (customer_telephones st)) of
                None \<Rightarrow> []
              | Some s \<Rightarrow> if s = [] then [] else split (CHR '','') s)\<rparr>), st))"
    by (simp add: get_customers_id_def 1 format_row_def format_phoneNumbers_eq split: list.split)
  have d: "get_employees_id eid st =
     (case filter (\<lambda>e. employee_id e = eid) (employees st) of
        [] \<Rightarrow> (reply 404 (Message ''Employee not found''), st)
      | e # others \<Rightarrow>
          (reply 200 (Employee \<lparr>columns = e, ent_phoneNumbers = JsArray
             (case GROUP_CONCAT (group_concat_max_len st)
                     (phones_of (employee_id e) (employee_phones st)) of
                None \<Rightarrow> []
              | Some s \<Rightarrow> if s = [] then [] else split (CHR '','') s)\<rparr>), st))"
    by (simp add: get_employees_id_def 2 format_row_def format_phoneNumbers_eq split: list.split)
  show ?thesis
    using a b c d GROUP_CONCAT_no_rows by blast
qed

text \<open>Customers with two and with one phone row, customer 2 after a full update
  without phone numbers, and a key that no customer has.\<close>

theorem joined_reads_return_phone_arrays_witness:
  "json (fst (get_customers_all shop)) =
     Customers
      [\<lparr>columns = \<lparr>customer_id = 1, c_firstName = Some ''Amal'', c_lastName = Some ''Perera'',
                    c_email = Some ''amal@x.com'', c_type = Some ''Regular''\<rparr>,
         ent_phoneNumbers = JsArray [''0711111111'', ''0722222222'']\<rparr>,
       \<lparr>columns = \<lparr>customer_id = 2, c_firstName = Some ''Nimal'', c_lastName = Some ''Silva'',
                    c_email = Some ''nimal@x.com'', c_type = Some ''Normal''\<rparr>,
         ent_phoneNumbers = JsArray [''0733333333'']\<rparr>] \<and>
   json (fst (get_customers_id 2 (snd (put_customers 2 no_fields shop)))) =
     Customer \<lparr>columns = \<lparr>customer_id = 2, c_firstName = None, c_lastName = None,
                    c_email = None, c_type = None\<rparr>,
               ent_phoneNumbers = JsArray []\<rparr> \<and>
   status (fst (get_customers_id 7 shop)) = 404"
  using joined_reads_return_phone_arrays [of shop 2 2]
    joined_reads_return_phone_arrays [of "snd (put_customers 2 no_fields shop)" 2 2]
    joined_reads_return_phone_arrays [of shop 7 7]
  by (simp add: put_customers_eq select_other_customers_by_email_def sql_eq_def no_fields_def
      shop_def reply_def GROUP_CONCAT_def phones_of_def)

text \<open>C9 as stated fails for an entity whose only phone row holds the empty string:
  the concatenation is the empty string, splitting it gives one empty string, and the
  handler returns the empty array.\<close>

theorem blank_phone_row_is_dropped:
  "phones_of 1 (customer_telephones blank_phone_store) = [[]] \<and>
   GROUP_CONCAT (group_concat_max_len blank_phone_store)
      (phones_of 1 (customer_telephones blank_phone_store)) = Some [] \<and>
   split (CHR '','') [] = [[]] \<and>
   json (fst (get_customers_id 1 blank_phone_store)) =
     Customer \<lparr>columns = \<lparr>customer_id = 1, c_firstName = None, c_lastName = None,
                    c_email = Some ''amal@x.com'', c_type = None\<rparr>,
               ent_phoneNumbers = JsArray []\<rparr>"
  by (simp add: blank_phone_store_def put_customers_eq select_other_customers_by_email_def
      sql_eq_def no_fields_def shop_def phones_of_def GROUP_CONCAT_def get_customers_id_def
      select_customer_joined_def select_customers_joined_def format_row_def
      format_phoneNumbers_def truthy_def reply_def)

end
